theory Spec2Isabelle
  imports Main "HOL-Library.Sublist"
begin

section \<open>Redirect classification (isRedirectUrl inside openAuthWindow)\<close>

text \<open>
  The closure \<open>isRedirectUrl\<close> reads two fields of the object that the platform's
  \<open>new URL(ustr)\<close> builds: \<open>hostname\<close> and \<open>pathname\<close>. The URL constructor belongs to
  the JavaScript runtime, not to the repository, so the classifier takes it as the
  parameter \<open>URL_new\<close>; a throwing constructor (the \<open>catch\<close> of the source) is
  \<open>None\<close>. The first test of the source, \<open>if (!url) return false\<close>, is the empty
  string here: navigation events hand over strings.
\<close>

record url =
  hostname :: string
  pathname :: string

definition endsWith :: "string \<Rightarrow> string \<Rightarrow> bool" where
  "endsWith s suf = suffix suf s"

definition isRedirectUrl :: "(string \<Rightarrow> url option) \<Rightarrow> string \<Rightarrow> string \<Rightarrow> bool" where
  "isRedirectUrl URL_new initialAuthUrl ustr =
     (if ustr = [] then False
      else if ustr = initialAuthUrl then False
      else (case URL_new ustr of
              None \<Rightarrow> False
            | Some u \<Rightarrow>
                (let isNativeClient = (hostname u = ''login.microsoftonline.com'' \<and>
                                       endsWith (pathname u) ''/oauth2/nativeclient'');
                     isLocal = (hostname u = ''localhost'' \<or> hostname u = ''127.0.0.1'')
                 in isNativeClient \<or> isLocal)))"

text \<open>
  A small stand-in for the URL constructor, used only to instantiate \<open>URL_new\<close> at
  concrete inputs: it reads absolute URLs of the shape
  \<open>scheme://[userinfo@]host[:port][/path][?query][#fragment]\<close> and rejects every string
  without a scheme followed by \<open>://\<close> or without a host.
\<close>

definition is_scheme_char :: "char \<Rightarrow> bool" where
  "is_scheme_char c =
     (c \<in> set ''abcdefghijklmnopqrstuvwxyzABCDEFGHIJKLMNOPQRSTUVWXYZ0123456789+-.'')"

definition strip_userinfo :: "string \<Rightarrow> string" where
  "strip_userinfo a =
     (if CHR ''@'' \<in> set a then rev (takeWhile (\<lambda>c. c \<noteq> CHR ''@'') (rev a)) else a)"

definition URL_simple :: "string \<Rightarrow> url option" where
  "URL_simple s =
     (let scheme = takeWhile (\<lambda>c. c \<noteq> CHR '':'') s;
          rest = drop (length scheme) s
      in if scheme = [] \<or> \<not> list_all is_scheme_char scheme \<or> \<not> prefix ''://'' rest then None
         else
           (let r = drop 3 rest;
                authority = takeWhile (\<lambda>c. c \<noteq> CHR ''/'' \<and> c \<noteq> CHR ''?'' \<and> c \<noteq> CHR ''#'') r;
                after = drop (length authority) r;
                host = takeWhile (\<lambda>c. c \<noteq> CHR '':'') (strip_userinfo authority);
                path = takeWhile (\<lambda>c. c \<noteq> CHR ''?'' \<and> c \<noteq> CHR ''#'') after
            in if host = [] then None
               else Some \<lparr>hostname = host, pathname = (if path = [] then ''/'' else path)\<rparr>))"

section \<open>The external client's configuration file (ensureOnedriveConfig)\<close>

text \<open>
  \<open>/\<bsol>bsync_dir\<bsol>b/.test(existing)\<close>: the word \<open>sync_dir\<close> occurs in the text with a word
  boundary on both sides. A word character is \<open>[A-Za-z0-9_]\<close>. The scan carries whether
  the position it looks at has a boundary on its left (the start of the text, or a
  non-word character before it).
\<close>

definition is_word_char :: "char \<Rightarrow> bool" where
  "is_word_char c =
     (c \<in> set ''abcdefghijklmnopqrstuvwxyzABCDEFGHIJKLMNOPQRSTUVWXYZ0123456789_'')"

definition boundary_before :: "string \<Rightarrow> bool" where
  "boundary_before pre = (case rev pre of [] \<Rightarrow> True | c # _ \<Rightarrow> \<not> is_word_char c)"

definition boundary_after :: "string \<Rightarrow> bool" where
  "boundary_after post = (case post of [] \<Rightarrow> True | c # _ \<Rightarrow> \<not> is_word_char c)"

fun sync_dir_scan :: "bool \<Rightarrow> string \<Rightarrow> bool" where
  "sync_dir_scan b [] = False"
| "sync_dir_scan b (c # cs) =
     ((b \<and> prefix ''sync_dir'' (c # cs) \<and> boundary_after (drop 8 (c # cs))) \<or>
      sync_dir_scan (\<not> is_word_char c) cs)"

definition hasSyncDir :: "string \<Rightarrow> bool" where
  "hasSyncDir existing = sync_dir_scan True existing"

text \<open>
  The part of the file system the function touches: the configuration directory, the
  configuration file (\<open>None\<close>: \<open>fs.readFile\<close> throws, the file is absent or unreadable)
  and the default sync directory. Each call of the \<open>fs\<close> API that can throw has a flag
  of the environment saying whether it does.
\<close>

record config_fs =
  config_dir_exists :: bool
  config_file :: "string option"
  sync_dir_exists :: bool

record config_env =
  mkdir_config_throws :: bool
  writeFile_throws :: bool
  mkdir_sync_throws :: bool

definition default_config :: "string \<Rightarrow> string" where
  "default_config ONEDRIVE_DEFAULT_SYNC_DIR =
     ''sync_dir = \"'' @ ONEDRIVE_DEFAULT_SYNC_DIR @ ''\"'' @ [CHR 0x0A] @
     ''sync_business_shared_items = \"false\"'' @ [CHR 0x0A]"

definition ensureOnedriveConfig :: "config_env \<Rightarrow> string \<Rightarrow> config_fs \<Rightarrow> config_fs" where
  "ensureOnedriveConfig env ONEDRIVE_DEFAULT_SYNC_DIR fs =
     (if mkdir_config_throws env then fs
      else
        (let fs1 = fs\<lparr>config_dir_exists := True\<rparr>;
             existing = (case config_file fs1 of None \<Rightarrow> [] | Some c \<Rightarrow> c)
         in if \<not> hasSyncDir existing then
              (if writeFile_throws env then fs1
               else
                 (let fs2 = fs1\<lparr>config_file := Some (default_config ONEDRIVE_DEFAULT_SYNC_DIR)\<rparr>
                  in if mkdir_sync_throws env then fs2 else fs2\<lparr>sync_dir_exists := True\<rparr>))
            else fs1))"

section \<open>The rendezvous files (start-onedrive-auth, stale-file cleanup)\<close>

record auth_files =
  request_file :: "string option"
  response_file :: "string option"

datatype fs_error = ENOENT

definition unlink_request :: "auth_files \<Rightarrow> fs_error + auth_files" where
  "unlink_request fs =
     (case request_file fs of None \<Rightarrow> Inl ENOENT | Some _ \<Rightarrow> Inr (fs\<lparr>request_file := None\<rparr>))"

definition unlink_response :: "auth_files \<Rightarrow> fs_error + auth_files" where
  "unlink_response fs =
     (case response_file fs of None \<Rightarrow> Inl ENOENT | Some _ \<Rightarrow> Inr (fs\<lparr>response_file := None\<rparr>))"

text \<open>
  Both \<open>fs.unlink\<close> calls stand in one \<open>try\<close> block: the first one that throws ends the
  block, and the \<open>catch\<close> only logs.
\<close>

definition clearOldAuthFiles :: "auth_files \<Rightarrow> auth_files" where
  "clearOldAuthFiles fs =
     (case unlink_request fs of
        Inl e \<Rightarrow> fs
      | Inr fs1 \<Rightarrow> (case unlink_response fs1 of Inl e \<Rightarrow> fs1 | Inr fs2 \<Rightarrow> fs2))"

definition absent_or_empty :: "string option \<Rightarrow> bool" where
  "absent_or_empty f = (case f of None \<Rightarrow> True | Some c \<Rightarrow> c = [])"

section \<open>The controller's state\<close>

text \<open>
  A status event is what the presentation layer receives on a channel:
  \<open>{ status, message }\<close>. The message texts of the source are German sentences, some
  with an embedded exit code; each is a constructor here, named by what it says.
\<close>

datatype channel = AuthResult | SyncResult

datatype status = Info | Success | Warning | Error | Completed

datatype message =
    MsgAuthFailed              \<comment> \<open>the default text of failAuthFlow and the handler's catch\<close>
  | MsgUnknownFault            \<comment> \<open>uncaughtException\<close>
  | MsgUnexpectedFault         \<comment> \<open>unhandledRejection\<close>
  | MsgNotInstalled
  | MsgSpawnFailed             \<comment> \<open>the auth child's error event\<close>
  | MsgAuthFailedCode "int option"
  | MsgExceptionText           \<comment> \<open>e.message, sent by the handler's catch\<close>
  | MsgCancelled               \<comment> \<open>the auth window was closed\<close>
  | MsgRedirectFailed          \<comment> \<open>the catch of handleAuthRedirect\<close>
  | MsgAuthSuccess             \<comment> \<open>the redirect was stored\<close>
  | MsgAuthCompleted           \<comment> \<open>the token file exists after the child's exit\<close>
  | MsgNoTokenFound            \<comment> \<open>the token file is missing after the child's exit\<close>
  | MsgMonitorStarted
  | MsgNoSavedToken            \<comment> \<open>start of the application without a token\<close>
  | MsgNoToken                 \<comment> \<open>force-sync without a token\<close>
  | MsgMonitorStopped
  | MsgMonitorForceKilled
  | MsgSyncDone
  | MsgSyncFailedCode "int option"

record status_event =
  channel :: channel
  status :: status
  message :: message

datatype signal = SIGTERM | SIGKILL | SIGINT | SIGHUP

datatype command =
    WhichOnedrive        \<comment> \<open>spawn('which', ['onedrive'])\<close>
  | OnedriveAuth         \<comment> \<open>--confdir, --sync, --reauth, --auth-files request:response\<close>
  | OnedriveSync         \<comment> \<open>--confdir, --sync\<close>
  | OnedriveMonitor      \<comment> \<open>--confdir, --monitor\<close>

text \<open>What the controller does to the world outside it, in the order it does it.\<close>

datatype effect =
    Spawn command
  | KillAuthChild nat          \<comment> \<open>onedriveProcess.kill()\<close>
  | KillMonitor                \<comment> \<open>onedriveMonitorProcess.kill()\<close>
  | ProcessKill nat signal     \<comment> \<open>process.kill(pid, signal)\<close>
  | CloseWindow nat            \<comment> \<open>authWindow.close()\<close>
  | ShowWindow nat
  | WriteResponseFile string

text \<open>
  The objects of the source live in three stores, and a reference to an object is its
  index there, so that two closures holding the same run see one \<open>settled\<close> flag:
  the AuthRun objects, the ChildProcess objects of the auth client with the listeners
  that were put on them, and the auth windows with the variables their closures hold.
\<close>

record auth_run =
  run_id :: int                \<comment> \<open>Date.now()\<close>
  settled :: bool

record auth_child =
  owner :: nat                 \<comment> \<open>the authRun that the error and exit observers hold\<close>
  exitCode :: "int option"     \<comment> \<open>a number once the child has exited with a code\<close>
  has_exited :: bool
  has_closed :: bool
  once_exit :: nat             \<comment> \<open>decideAfterExit listeners waiting for exit\<close>
  once_close :: nat            \<comment> \<open>decideAfterExit listeners waiting for close\<close>

record auth_window =
  w_run :: nat                 \<comment> \<open>the run handed to openAuthWindow\<close>
  initialAuthUrl :: string
  redirectHandled :: bool
  writing :: "string option"   \<comment> \<open>handleAuthRedirect waits for fs.writeFile of this URL\<close>
  destroyed :: bool

record monitor =
  mon_pid :: "nat option"      \<comment> \<open>pid is a number, or undefined\<close>

text \<open>Where the handler of one \<open>start-onedrive-auth\<close> command is suspended.\<close>

datatype handler_pc =
    AwaitInstallCheck
  | AwaitFiles                 \<comment> \<open>mkdir, ensureOnedriveConfig, the two unlinks\<close>
  | AwaitAuthUrl
  | AwaitLoadURL nat           \<comment> \<open>the window this handler opened\<close>
  | Returned

record state =
  runs :: "auth_run list"
  activeAuthRun :: "nat option"
  handlers :: "handler_pc list"
  children :: "auth_child list"
  onedriveProcess :: "nat option"
  windows :: "auth_window list"
  authWindow :: "nat option"
  onedriveMonitorProcess :: "monitor option"
  next_pid :: nat
  isQuitting :: bool
  win_ready :: bool            \<comment> \<open>the main window exists\<close>
  token_exists :: bool         \<comment> \<open>the file refresh_token exists\<close>
  ui :: "status_event list"    \<comment> \<open>what reached the presentation layer\<close>
  effects :: "effect list"

text \<open>The state when the module has been loaded; the first pid handed out is arbitrary.\<close>

definition initial_state :: state where
  "initial_state =
     \<lparr>runs = [], activeAuthRun = None, handlers = [], children = [], onedriveProcess = None,
      windows = [], authWindow = None, onedriveMonitorProcess = None, next_pid = 1000,
      isQuitting = False, win_ready = False, token_exists = False, ui = [], effects = []\<rparr>"

subsection \<open>Sending to the presentation layer\<close>

text \<open>
  Three ways of sending occur in the source. \<open>uiSend\<close> checks \<open>isQuitting\<close> and the main
  window; \<open>win?.webContents?.send\<close> checks only that the window exists;
  \<open>event.sender.send\<close> answers the window that issued the command. The main window is
  hidden, not destroyed, when the user closes it, so a window that exists is taken to be
  alive.
\<close>

definition deliver :: "channel \<Rightarrow> status \<Rightarrow> message \<Rightarrow> state \<Rightarrow> state" where
  "deliver ch st m s = s\<lparr>ui := ui s @ [\<lparr>channel = ch, status = st, message = m\<rparr>]\<rparr>"

definition uiSend :: "channel \<Rightarrow> status \<Rightarrow> message \<Rightarrow> state \<Rightarrow> state" where
  "uiSend ch st m s = (if isQuitting s then s else if win_ready s then deliver ch st m s else s)"

definition winSend :: "channel \<Rightarrow> status \<Rightarrow> message \<Rightarrow> state \<Rightarrow> state" where
  "winSend ch st m s = (if win_ready s then deliver ch st m s else s)"

definition senderSend :: "channel \<Rightarrow> status \<Rightarrow> message \<Rightarrow> state \<Rightarrow> state" where
  "senderSend ch st m s = deliver ch st m s"

definition do_effect :: "effect \<Rightarrow> state \<Rightarrow> state" where
  "do_effect e s = s\<lparr>effects := effects s @ [e]\<rparr>"

subsection \<open>AuthRun bookkeeping\<close>

definition beginAuthRun :: "int \<Rightarrow> state \<Rightarrow> nat \<times> state" where
  "beginAuthRun now s =
     (let run = length (runs s)
      in (run, s\<lparr>runs := runs s @ [\<lparr>run_id = now, settled = False\<rparr>],
                 activeAuthRun := Some run\<rparr>))"

definition is_settled :: "state \<Rightarrow> nat \<Rightarrow> bool" where
  "is_settled s run = settled (runs s ! run)"

text \<open>
  The parameter \<open>run\<close> may be \<open>null\<close> (\<open>None\<close>). A reference that is not \<open>null\<close> always
  points to an object of the store; the test on \<open>length (runs s)\<close> only says so.
\<close>

definition settleAuthRun :: "nat option \<Rightarrow> state \<Rightarrow> state" where
  "settleAuthRun r s =
     (case r of
        None \<Rightarrow> s
      | Some run \<Rightarrow>
          if length (runs s) \<le> run \<or> is_settled s run then s
          else s\<lparr>runs := (runs s)[run := (runs s ! run)\<lparr>settled := True\<rparr>],
                 activeAuthRun := (if activeAuthRun s = Some run then None else activeAuthRun s)\<rparr>)"

definition close_auth_window :: "state \<Rightarrow> state" where
  "close_auth_window s =
     (case authWindow s of
        None \<Rightarrow> s
      | Some w \<Rightarrow> if w < length (windows s) \<and> \<not> destroyed (windows s ! w)
                  then do_effect (CloseWindow w) s else s)"

definition kill_auth_child :: "state \<Rightarrow> state" where
  "kill_auth_child s =
     (case onedriveProcess s of
        None \<Rightarrow> s
      | Some p \<Rightarrow> (do_effect (KillAuthChild p) s)\<lparr>onedriveProcess := None\<rparr>)"

text \<open>
  \<open>failAuthFlow(message, error, run = activeAuthRun)\<close>: every caller passes a text, so
  \<open>message || default\<close> is the message. The function has no \<open>await\<close> and runs to its end
  when called.
\<close>

definition failAuthFlow :: "message \<Rightarrow> nat option \<Rightarrow> state \<Rightarrow> state" where
  "failAuthFlow m r s =
     (case r of
        None \<Rightarrow> s
      | Some run \<Rightarrow>
          if length (runs s) \<le> run \<or> is_settled s run then s
          else
            (let s1 = settleAuthRun (Some run) s;
                 s2 = (close_auth_window s1)\<lparr>authWindow := None\<rparr>;
                 s3 = kill_auth_child s2
             in uiSend AuthResult Error m s3))"

subsection \<open>The monitor\<close>

text \<open>
  \<open>startOnedriveMonitor\<close>: an existing monitor is killed and forgotten, a new one is
  spawned and announced. \<open>spawn\<close> hands back a child at once (a command that cannot be
  started is reported later, by the child's \<open>error\<close> event), so the \<open>catch\<close> of the
  source is not entered; the new child gets the next unused pid. The listeners that
  turn the monitor's output lines into \<open>sync-result\<close> events are left out: they touch
  neither a run nor a process reference.
\<close>

definition startOnedriveMonitor :: "state \<Rightarrow> state" where
  "startOnedriveMonitor s =
     (let s1 = (case onedriveMonitorProcess s of
                  None \<Rightarrow> s
                | Some _ \<Rightarrow> (do_effect KillMonitor s)\<lparr>onedriveMonitorProcess := None\<rparr>);
          s2 = (do_effect (Spawn OnedriveMonitor) s1)
                 \<lparr>onedriveMonitorProcess := Some \<lparr>mon_pid = Some (next_pid s1)\<rparr>,
                  next_pid := Suc (next_pid s1)\<rparr>
      in uiSend AuthResult Info MsgMonitorStarted s2)"

definition maybeStartMonitorIfToken :: "state \<Rightarrow> state" where
  "maybeStartMonitorIfToken s =
     (if token_exists s then startOnedriveMonitor s
      else uiSend AuthResult Info MsgNoSavedToken s)"

text \<open>
  One call of \<open>stopOnedriveMonitorGracefully\<close>: the variables of its closure. Every
  call of \<open>resolve\<close> is recorded in \<open>resolutions\<close>, so that a second call would show.
\<close>

record stop_call =
  stop_pid :: "nat option"
  resolved :: bool
  resolutions :: "bool list"
  timer_pending :: bool
  exit_listener :: bool        \<comment> \<open>once('exit') is still registered\<close>
  close_listener :: bool       \<comment> \<open>once('close') is still registered\<close>

definition done_stop :: "bool \<Rightarrow> stop_call \<Rightarrow> stop_call" where
  "done_stop result c =
     (if \<not> resolved c then c\<lparr>resolved := True, resolutions := resolutions c @ [result]\<rparr> else c)"

text \<open>
  \<open>sigterm_throws\<close> is the environment's answer to \<open>process.kill(pid, 'SIGTERM')\<close>: it
  throws when no process has that pid any more.
\<close>

definition stopOnedriveMonitorGracefully :: "bool \<Rightarrow> state \<Rightarrow> stop_call \<times> state" where
  "stopOnedriveMonitorGracefully sigterm_throws s =
     (let idle = \<lparr>stop_pid = None, resolved = False, resolutions = [], timer_pending = False,
                  exit_listener = False, close_listener = False\<rparr>
      in case onedriveMonitorProcess s of
           None \<Rightarrow> (idle\<lparr>resolutions := [False]\<rparr>, s)
         | Some m \<Rightarrow>
             (case mon_pid m of
                None \<Rightarrow> (idle\<lparr>resolutions := [False]\<rparr>, s)
              | Some pid \<Rightarrow>
                  (let c = idle\<lparr>stop_pid := Some pid\<rparr>;
                       s1 = do_effect (ProcessKill pid SIGTERM) s
                   in if sigterm_throws then (done_stop False c, s1)
                      else (c\<lparr>timer_pending := True, exit_listener := True,
                              close_listener := True\<rparr>, s1))))"

datatype stop_event = TimerFires | MonitorExit | MonitorClose

fun stop_step :: "stop_event \<Rightarrow> stop_call \<times> state \<Rightarrow> stop_call \<times> state" where
  "stop_step TimerFires (c, s) =
     (if \<not> timer_pending c then (c, s)
      else
        (let s1 = (case stop_pid c of None \<Rightarrow> s | Some pid \<Rightarrow> do_effect (ProcessKill pid SIGKILL) s);
             s2 = s1\<lparr>onedriveMonitorProcess := None\<rparr>;
             s3 = winSend SyncResult Warning MsgMonitorForceKilled s2
         in (done_stop True (c\<lparr>timer_pending := False\<rparr>), s3)))"
| "stop_step MonitorExit (c, s) =
     (if \<not> exit_listener c then (c, s)
      else (done_stop True (c\<lparr>exit_listener := False, timer_pending := False\<rparr>),
            s\<lparr>onedriveMonitorProcess := None\<rparr>))"
| "stop_step MonitorClose (c, s) =
     (if \<not> close_listener c then (c, s)
      else (done_stop True (c\<lparr>close_listener := False, timer_pending := False\<rparr>),
            s\<lparr>onedriveMonitorProcess := None\<rparr>))"

definition stop_run :: "stop_event list \<Rightarrow> stop_call \<times> state \<Rightarrow> stop_call \<times> state" where
  "stop_run evs cs = foldl (\<lambda>x e. stop_step e x) cs evs"

section \<open>force-sync\<close>

text \<open>
  What the environment answers during one \<open>force-sync\<close> command: how the \<open>which\<close> probe
  ends, whether the SIGTERM can be delivered, what happens to the old monitor while the
  handler waits for it, and how the sync child ends. The promise the handler waits on is
  resolved by the child's \<open>exit\<close> event only, so a child that never exits leaves the
  handler waiting; so does a stop that is never resolved. A handler that never returns
  has the reply \<open>None\<close>. The events of the old monitor all come while the handler
  waits or the sync child runs. The listeners that forward the sync child's output as
  \<open>info\<close> and \<open>warning\<close> events are left out, and so is the \<open>catch\<close> of the handler:
  nothing in its \<open>try\<close> block throws while the main window is alive.
\<close>

datatype which_outcome = WhichExit "int option" | WhichError

datatype child_end = Exits "int option" | NeverExits

record sync_env =
  which_result :: which_outcome
  sigterm_throws :: bool
  monitor_events :: "stop_event list"
  sync_end :: child_end

record reply =
  reply_status :: string
  reply_reason :: "string option"

definition checkOnedriveInstallation :: "which_outcome \<Rightarrow> state \<Rightarrow> bool \<times> state" where
  "checkOnedriveInstallation w s =
     (let s1 = do_effect (Spawn WhichOnedrive) s
      in case w of WhichExit code \<Rightarrow> (code = Some 0, s1) | WhichError \<Rightarrow> (False, s1))"

definition force_sync :: "sync_env \<Rightarrow> state \<Rightarrow> reply option \<times> state" where
  "force_sync env s =
     (case checkOnedriveInstallation (which_result env) s of
        (isOnedriveInstalled, s1) \<Rightarrow>
          if \<not> isOnedriveInstalled then
            (Some \<lparr>reply_status = ''failed'', reply_reason = Some ''onedrive-not-installed''\<rparr>,
             winSend SyncResult Error MsgNotInstalled s1)
          else if \<not> token_exists s1 then
            (Some \<lparr>reply_status = ''failed'', reply_reason = Some ''no-token''\<rparr>,
             winSend SyncResult Error MsgNoToken s1)
          else
            (case stop_run (monitor_events env)
                    (stopOnedriveMonitorGracefully (sigterm_throws env) s1) of
               (c, s2) \<Rightarrow>
                 (case resolutions c of
                    [] \<Rightarrow> (None, s2)
                  | wasRunning # _ \<Rightarrow>
                      (let s3 = (if wasRunning then winSend SyncResult Info MsgMonitorStopped s2
                                 else s2);
                           s4 = do_effect (Spawn OnedriveSync) s3
                       in case sync_end env of
                            NeverExits \<Rightarrow> (None, s4)
                          | Exits code \<Rightarrow>
                              (let syncOk = (code = Some 0);
                                   s5 = (if syncOk then winSend SyncResult Success MsgSyncDone s4
                                         else winSend SyncResult Error (MsgSyncFailedCode code) s4);
                                   s6 = (if wasRunning \<or> syncOk then startOnedriveMonitor s5
                                         else s5)
                               in (Some \<lparr>reply_status = (if syncOk then ''ok'' else ''failed''),
                                         reply_reason = None\<rparr>, s6))))))"

subsection \<open>Observations on a state\<close>

text \<open>The commands spawned so far, and whether the monitor reference has a numeric pid.\<close>

fun spawned_command :: "effect \<Rightarrow> command option" where
  "spawned_command (Spawn c) = Some c"
| "spawned_command _ = None"

definition spawned_commands :: "state \<Rightarrow> command list" where
  "spawned_commands s = List.map_filter spawned_command (effects s)"

definition monitor_has_pid :: "state \<Rightarrow> bool" where
  "monitor_has_pid s =
     (case onedriveMonitorProcess s of None \<Rightarrow> False | Some m \<Rightarrow> mon_pid m \<noteq> None)"

text \<open>
  The state after a start of the application that found the token file: the main window
  exists and \<open>maybeStartMonitorIfToken\<close> has started the monitor.
\<close>

definition monitor_running_state :: state where
  "monitor_running_state =
     maybeStartMonitorIfToken (initial_state\<lparr>win_ready := True, token_exists := True\<rparr>)"

text \<open>
  The state after a start of the application that found no token file, and an
  environment for one \<open>force-sync\<close> in which the client is installed, the old monitor
  ends on the SIGTERM and the sync child exits with code 0.
\<close>

definition installed_env :: sync_env where
  "installed_env = \<lparr>which_result = WhichExit (Some 0), sigterm_throws = False,
                     monitor_events = [MonitorExit, MonitorClose], sync_end = Exits (Some 0)\<rparr>"

definition no_token_state :: state where
  "no_token_state = maybeStartMonitorIfToken (initial_state\<lparr>win_ready := True\<rparr>)"

section \<open>The auth run\<close>

text \<open>
  The handler of \<open>start-onedrive-auth\<close> and \<open>handleAuthRedirect\<close> are \<open>async\<close> functions:
  between two \<open>await\<close>s a piece of them runs to its end, and any other callback may run
  while they wait. Each piece is a function on the state here, and each callback of the
  source is one. References to runs, children and windows in a state that the
  controller reaches always point into their stores.
\<close>

definition pc_of :: "state \<Rightarrow> nat \<Rightarrow> handler_pc" where
  "pc_of s r = (if r < length (handlers s) then handlers s ! r else Returned)"

definition set_pc :: "nat \<Rightarrow> handler_pc \<Rightarrow> state \<Rightarrow> state" where
  "set_pc r pc s = s\<lparr>handlers := (handlers s)[r := pc]\<rparr>"

subsection \<open>decideAfterExit (inside handleAuthRedirect)\<close>

definition decideAfterExit :: "state \<Rightarrow> state" where
  "decideAfterExit s =
     (if token_exists s
      then startOnedriveMonitor (winSend AuthResult Completed MsgAuthCompleted s)
      else winSend AuthResult Error MsgNoTokenFound s)"

subsection \<open>The handler of start-onedrive-auth, piece by piece\<close>

text \<open>Up to the first \<open>await\<close>: \<open>beginAuthRun\<close>, and the \<open>which\<close> probe is spawned.\<close>

definition start_onedrive_auth :: "int \<Rightarrow> state \<Rightarrow> state" where
  "start_onedrive_auth now s =
     (case beginAuthRun now s of
        (authRun, s1) \<Rightarrow>
          (do_effect (Spawn WhichOnedrive) s1)\<lparr>handlers := handlers s1 @ [AwaitInstallCheck]\<rparr>)"

text \<open>After \<open>checkOnedriveInstallation\<close>: the early return, or on to the file system.\<close>

definition after_install_check :: "nat \<Rightarrow> which_outcome \<Rightarrow> state \<Rightarrow> state" where
  "after_install_check authRun w s =
     (if pc_of s authRun = AwaitInstallCheck then
        (let isOnedriveInstalled = (case w of WhichExit code \<Rightarrow> code = Some 0 | WhichError \<Rightarrow> False)
         in if \<not> isOnedriveInstalled then
              set_pc authRun Returned
                (settleAuthRun (Some authRun) (senderSend AuthResult Error MsgNotInstalled s))
            else set_pc authRun AwaitFiles s)
      else s)"

text \<open>
  After \<open>mkdir\<close>, \<open>ensureOnedriveConfig\<close> and the cleanup of the rendezvous files (their
  effect on the files is \<open>ensureOnedriveConfig\<close> and \<open>clearOldAuthFiles\<close> above): the auth
  child is spawned, its observers are registered, and the handler waits for the URL.
\<close>

definition after_files :: "nat \<Rightarrow> state \<Rightarrow> state" where
  "after_files authRun s =
     (if pc_of s authRun = AwaitFiles then
        (let p = length (children s);
             s1 = do_effect (Spawn OnedriveAuth) s
         in set_pc authRun AwaitAuthUrl
              (s1\<lparr>children := children s1 @
                      [\<lparr>owner = authRun, exitCode = None, has_exited = False, has_closed = False,
                        once_exit = 0, once_close = 0\<rparr>],
                   onedriveProcess := Some p\<rparr>))
      else s)"

text \<open>
  The \<open>catch\<close> of the handler, entered when \<open>mkdir\<close> throws or \<open>waitForAuthUrl\<close> rejects
  (timeout, read error). It calls \<open>failAuthFlow\<close> without a run, so the run it fails is
  \<open>activeAuthRun\<close>, and then sends an error event of its own.
\<close>

definition handler_catch :: "nat \<Rightarrow> state \<Rightarrow> state" where
  "handler_catch authRun s =
     (if pc_of s authRun = AwaitFiles \<or> pc_of s authRun = AwaitAuthUrl then
        set_pc authRun Returned
          (senderSend AuthResult Error MsgExceptionText
             (failAuthFlow MsgAuthFailed (activeAuthRun s) s))
      else s)"

text \<open>\<open>waitForAuthUrl\<close> has resolved: \<open>openAuthWindow(authUrl, authRun)\<close> up to \<open>loadURL\<close>.\<close>

definition openAuthWindow :: "nat \<Rightarrow> string \<Rightarrow> state \<Rightarrow> state" where
  "openAuthWindow authRun authUrl s =
     (if pc_of s authRun = AwaitAuthUrl then
        (let s1 = (case authWindow s of None \<Rightarrow> s | Some a \<Rightarrow> do_effect (CloseWindow a) s);
             w = length (windows s1)
         in set_pc authRun (AwaitLoadURL w)
              (s1\<lparr>windows := windows s1 @
                      [\<lparr>w_run = authRun, initialAuthUrl = authUrl, redirectHandled = False,
                        writing = None, destroyed = False\<rparr>],
                   authWindow := Some w\<rparr>))
      else s)"

text \<open>\<open>loadURL\<close> has settled (its failures are caught): show the window, return.\<close>

definition after_loadURL :: "nat \<Rightarrow> state \<Rightarrow> state" where
  "after_loadURL authRun s =
     (case pc_of s authRun of
        AwaitLoadURL w \<Rightarrow>
          set_pc authRun Returned
            (case authWindow s of
               None \<Rightarrow> s
             | Some a \<Rightarrow>
                 if \<not> destroyed (windows s ! a) \<and> \<not> redirectHandled (windows s ! w)
                 then do_effect (ShowWindow a) s else s)
      | _ \<Rightarrow> s)"

subsection \<open>The callbacks of the auth window\<close>

text \<open>
  \<open>tryHandle(url)\<close>, called by every navigation event of window \<open>w\<close>. On the first
  redirect it sets the latch and calls \<open>handleAuthRedirect\<close>, which starts
  \<open>fs.writeFile\<close> and waits.
\<close>

definition tryHandle :: "(string \<Rightarrow> url option) \<Rightarrow> nat \<Rightarrow> string \<Rightarrow> state \<Rightarrow> state" where
  "tryHandle URL_new w u s =
     (if w < length (windows s) then
        (let win = windows s ! w
         in if \<not> redirectHandled win \<and> isRedirectUrl URL_new (initialAuthUrl win) u
            then s\<lparr>windows := (windows s)[w := win\<lparr>redirectHandled := True, writing := Some u\<rparr>]\<rparr>
            else s)
      else s)"

text \<open>
  \<open>handleAuthRedirect\<close> after \<open>fs.writeFile\<close>: when the write threw, the \<open>catch\<close>; when
  it did not, the rest of the \<open>try\<close> block.
\<close>

definition handleAuthRedirect :: "nat \<Rightarrow> bool \<Rightarrow> state \<Rightarrow> state" where
  "handleAuthRedirect w writeFile_threw s =
     (if w < length (windows s) then
        (case writing (windows s ! w) of
           None \<Rightarrow> s
         | Some redirectUrl \<Rightarrow>
             (let run = w_run (windows s ! w);
                  s0 = s\<lparr>windows := (windows s)[w := (windows s ! w)\<lparr>writing := None\<rparr>]\<rparr>
              in if writeFile_threw then failAuthFlow MsgRedirectFailed (Some run) s0
                 else
                   (let s1 = do_effect (WriteResponseFile redirectUrl) s0;
                        s2 = (case authWindow s1 of
                                None \<Rightarrow> s1
                              | Some a \<Rightarrow>
                                  (do_effect (CloseWindow a) (settleAuthRun (Some run) s1))
                                    \<lparr>authWindow := None\<rparr>);
                        s3 = winSend AuthResult Success MsgAuthSuccess s2
                    in case onedriveProcess s3 of
                         None \<Rightarrow> decideAfterExit s3
                       | Some p \<Rightarrow>
                           if exitCode (children s3 ! p) \<noteq> None then decideAfterExit s3
                           else s3\<lparr>children := (children s3)
                                  [p := (children s3 ! p)
                                     \<lparr>once_exit := Suc (once_exit (children s3 ! p)),
                                      once_close := Suc (once_close (children s3 ! p))\<rparr>]\<rparr>)))
      else s)"

text \<open>The \<open>closed\<close> listener of window \<open>w\<close> (registered with \<open>once\<close>).\<close>

definition on_window_closed :: "nat \<Rightarrow> state \<Rightarrow> state" where
  "on_window_closed w s =
     (if w < length (windows s) \<and> \<not> destroyed (windows s ! w) then
        (let run = w_run (windows s ! w);
             s1 = s\<lparr>windows := (windows s)[w := (windows s ! w)\<lparr>destroyed := True\<rparr>],
                    authWindow := None\<rparr>
         in if \<not> is_settled s1 run then failAuthFlow MsgCancelled (Some run) s1 else s1)
      else s)"

subsection \<open>The observers of the auth child\<close>

text \<open>
  \<open>onedriveProcess.on('exit', (code, signal) => ...)\<close> as the handler registers it; \<open>code\<close>
  is \<open>null\<close> (\<open>None\<close>) when a signal ended the child, and \<open>null !== 0\<close> holds.
\<close>

definition exit_observer :: "nat \<Rightarrow> int option \<Rightarrow> signal option \<Rightarrow> state \<Rightarrow> state" where
  "exit_observer authRun code sig s =
     (let s1 = s\<lparr>onedriveProcess := None\<rparr>
      in if sig = Some SIGTERM \<or> sig = Some SIGKILL then s1
         else if code \<noteq> Some 0 then failAuthFlow (MsgAuthFailedCode code) (Some authRun) s1
         else s1)"

text \<open>
  The child \<open>p\<close> emits \<open>exit\<close>: its listeners run in the order of their registration,
  the observer above first, then every \<open>decideAfterExit\<close> that \<open>handleAuthRedirect\<close> put
  there with \<open>once\<close>. It emits \<open>close\<close> after that: the \<open>once('close')\<close> listeners run.
\<close>

definition on_child_exit :: "nat \<Rightarrow> int option \<Rightarrow> signal option \<Rightarrow> state \<Rightarrow> state" where
  "on_child_exit p code sig s =
     (if p < length (children s) \<and> \<not> has_exited (children s ! p) then
        (let ch = children s ! p;
             s0 = s\<lparr>children := (children s)[p := ch\<lparr>has_exited := True, exitCode := code,
                                                       once_exit := 0\<rparr>]\<rparr>;
             s1 = exit_observer (owner ch) code sig s0
         in (decideAfterExit ^^ once_exit ch) s1)
      else s)"

definition on_child_close :: "nat \<Rightarrow> state \<Rightarrow> state" where
  "on_child_close p s =
     (if p < length (children s) \<and> \<not> has_closed (children s ! p) then
        (let ch = children s ! p;
             s0 = s\<lparr>children := (children s)[p := ch\<lparr>has_closed := True, once_close := 0\<rparr>]\<rparr>
         in (decideAfterExit ^^ once_close ch) s0)
      else s)"

definition on_child_error :: "nat \<Rightarrow> state \<Rightarrow> state" where
  "on_child_error p s =
     (if p < length (children s) then failAuthFlow MsgSpawnFailed (Some (owner (children s ! p))) s
      else s)"

subsection \<open>The process-wide handlers\<close>

definition on_uncaughtException :: "state \<Rightarrow> state" where
  "on_uncaughtException s = failAuthFlow MsgUnknownFault (activeAuthRun s) s"

definition on_unhandledRejection :: "state \<Rightarrow> state" where
  "on_unhandledRejection s = failAuthFlow MsgUnexpectedFault (activeAuthRun s) s"

definition on_before_quit :: "state \<Rightarrow> state" where
  "on_before_quit s =
     (let s1 = s\<lparr>isQuitting := True\<rparr>;
          s2 = (case onedriveProcess s1 of None \<Rightarrow> s1 | Some p \<Rightarrow> do_effect (KillAuthChild p) s1);
          s3 = (case onedriveMonitorProcess s2 of None \<Rightarrow> s2 | Some _ \<Rightarrow> do_effect KillMonitor s2)
      in case authWindow s3 of None \<Rightarrow> s3 | Some a \<Rightarrow> do_effect (CloseWindow a) s3)"

definition on_ready :: "state \<Rightarrow> state" where
  "on_ready s = maybeStartMonitorIfToken (s\<lparr>win_ready := True\<rparr>)"

subsection \<open>Events\<close>

text \<open>
  What can happen to the controller, one event per callback; \<open>TokenFile\<close> is the
  external client creating or removing the token file.
\<close>

datatype event =
    AppReady
  | StartAuthCommand int
  | InstallCheckDone nat which_outcome
  | FilesPrepared nat
  | HandlerThrows nat
  | AuthUrlRead nat string
  | LoadURLSettled nat
  | Navigation nat string
  | ResponseWriteSettled nat bool
  | AuthWindowClosed nat
  | ChildExit nat "int option" "signal option"
  | ChildClose nat
  | ChildError nat
  | UncaughtException
  | UnhandledRejection
  | BeforeQuit
  | TokenFile bool

fun step :: "(string \<Rightarrow> url option) \<Rightarrow> event \<Rightarrow> state \<Rightarrow> state" where
  "step U AppReady s = on_ready s"
| "step U (StartAuthCommand now) s = start_onedrive_auth now s"
| "step U (InstallCheckDone r w) s = after_install_check r w s"
| "step U (FilesPrepared r) s = after_files r s"
| "step U (HandlerThrows r) s = handler_catch r s"
| "step U (AuthUrlRead r u) s = openAuthWindow r u s"
| "step U (LoadURLSettled r) s = after_loadURL r s"
| "step U (Navigation w u) s = tryHandle U w u s"
| "step U (ResponseWriteSettled w ok) s = handleAuthRedirect w (\<not> ok) s"
| "step U (AuthWindowClosed w) s = on_window_closed w s"
| "step U (ChildExit p code sig) s = on_child_exit p code sig s"
| "step U (ChildClose p) s = on_child_close p s"
| "step U (ChildError p) s = on_child_error p s"
| "step U UncaughtException s = on_uncaughtException s"
| "step U UnhandledRejection s = on_unhandledRejection s"
| "step U BeforeQuit s = on_before_quit s"
| "step U (TokenFile b) s = s\<lparr>token_exists := b\<rparr>"

definition run_events :: "(string \<Rightarrow> url option) \<Rightarrow> event list \<Rightarrow> state \<Rightarrow> state" where
  "run_events U evs s = foldl (\<lambda>x e. step U e x) s evs"

subsection \<open>Observations on the runs\<close>


text \<open>
  A terminal event of the auth flow: \<open>completed\<close>, or \<open>error\<close>, on \<open>auth-result\<close>. The
  \<open>success\<close> that follows the stored redirect is the intermediate signal.
\<close>

definition terminal :: "status_event \<Rightarrow> bool" where
  "terminal e = (channel e = AuthResult \<and> (status e = Completed \<or> status e = Error))"

definition terminal_events :: "state \<Rightarrow> status_event list" where
  "terminal_events s = filter terminal (ui s)"

text \<open>
  One whole auth flow that goes well, as a list of events: the application starts
  without a token; the command arrives; the client is found; the files are prepared and
  the child spawned; the request URL is read; the window loads it; the browser is
  redirected to the native-client endpoint; the response file is written. Then the
  window that the controller closed is gone, the external client writes the token file
  and exits with code 0, and its streams close.
\<close>

definition flow_until_redirect :: "event list" where
  "flow_until_redirect =
     [AppReady, StartAuthCommand 1700000000000, InstallCheckDone 0 (WhichExit (Some 0)),
      FilesPrepared 0,
      AuthUrlRead 0 ''https://login.microsoftonline.com/authorize?client_id=x'',
      LoadURLSettled 0,
      Navigation 0 ''https://login.microsoftonline.com/common/oauth2/nativeclient?code=abc'',
      ResponseWriteSettled 0 True]"

definition flow_child_ends :: "event list" where
  "flow_child_ends =
     [AuthWindowClosed 0, TokenFile True, ChildExit 0 (Some 0) None, ChildClose 0]"

subsection \<open>Predicates used in the proofs\<close>

text \<open>
  \<open>active_inv\<close>: the run that \<open>activeAuthRun\<close> points to, if any, is the last one begun
  and is not settled. \<open>same_runs\<close>: two states have the same runs and the same active
  run. \<open>settled_kept\<close>: every run of the first state is a run of the second, and is
  settled there if it was settled before.
\<close>

fun active_ok :: "auth_run list \<Rightarrow> nat option \<Rightarrow> bool" where
  "active_ok rs None = True"
| "active_ok rs (Some r) = (Suc r = length rs \<and> \<not> settled (rs ! r))"

definition active_inv :: "state \<Rightarrow> bool" where
  "active_inv s = active_ok (runs s) (activeAuthRun s)"

definition same_runs :: "state \<Rightarrow> state \<Rightarrow> bool" where
  "same_runs s' s = (runs s' = runs s \<and> activeAuthRun s' = activeAuthRun s)"

definition settled_kept :: "state \<Rightarrow> state \<Rightarrow> bool" where
  "settled_kept s s' =
     (length (runs s) \<le> length (runs s') \<and>
      list_all (\<lambda>r. settled (runs s ! r) \<le> settled (runs s' ! r)) [0..<length (runs s)])"

text \<open>
  Two states on the way of the flow above: the auth child has been spawned and the
  handler waits for the request URL; and the redirect has been seen, with
  \<open>handleAuthRedirect\<close> waiting for its write.
\<close>

definition child_running_state :: state where
  "child_running_state =
     run_events URL_simple
       [AppReady, StartAuthCommand 1700000000000, InstallCheckDone 0 (WhichExit (Some 0)),
        FilesPrepared 0] initial_state"




section \<open>Properties of the redirect classifier\<close>

text \<open>
  Claim C4. For every candidate and original URL string the classifier answers false
  when the candidate is the original, false when the candidate does not parse, and
  otherwise true exactly when the parsed host is \<open>login.microsoftonline.com\<close> with a
  path ending in \<open>/oauth2/nativeclient\<close>, or the host is \<open>localhost\<close> or \<open>127.0.0.1\<close>.
  The URL constructor is the parameter \<open>URL_new\<close>; what it is assumed to do is what
  the platform does: it rejects the empty string and an unparsable string, and it reads
  the three example URLs into the host and path written below. Under these readings
  the five examples of the claim come out false, false, true, true, false.
\<close>

theorem isRedirectUrl_classifier:
  assumes empty: "URL_new [] = None"
    and native: "URL_new ''https://login.microsoftonline.com/common/oauth2/nativeclient?code=abc'' =
                   Some \<lparr>hostname = ''login.microsoftonline.com'', pathname = ''/common/oauth2/nativeclient''\<rparr>"
    and local: "URL_new ''http://localhost:53682/?code=abc'' = Some \<lparr>hostname = ''localhost'', pathname = ''/''\<rparr>"
    and example: "URL_new ''https://example.com/'' = Some \<lparr>hostname = ''example.com'', pathname = ''/''\<rparr>"
    and bad: "URL_new unparsable = None"
  shows "\<not> isRedirectUrl URL_new orig orig \<and>
         (\<forall>c. URL_new c = None \<longrightarrow> \<not> isRedirectUrl URL_new orig c) \<and>
         (\<forall>c u. c \<noteq> orig \<and> URL_new c = Some u \<longrightarrow>
            isRedirectUrl URL_new orig c =
              ((hostname u = ''login.microsoftonline.com'' \<and> suffix ''/oauth2/nativeclient'' (pathname u)) \<or>
               hostname u = ''localhost'' \<or> hostname u = ''127.0.0.1'')) \<and>
         \<not> isRedirectUrl URL_new ''https://login.microsoftonline.com/authorize?...''
              ''https://login.microsoftonline.com/authorize?...'' \<and>
         \<not> isRedirectUrl URL_new ''https://login.microsoftonline.com/authorize?...'' unparsable \<and>
         isRedirectUrl URL_new ''https://login.microsoftonline.com/authorize?...''
              ''https://login.microsoftonline.com/common/oauth2/nativeclient?code=abc'' \<and>
         isRedirectUrl URL_new ''https://login.microsoftonline.com/authorize?...''
              ''http://localhost:53682/?code=abc'' \<and>
         \<not> isRedirectUrl URL_new ''https://login.microsoftonline.com/authorize?...'' ''https://example.com/''"
proof -
  have a: "\<not> isRedirectUrl URL_new orig orig" for orig
    by (simp add: isRedirectUrl_def)
  have b: "\<not> isRedirectUrl URL_new orig c" if "URL_new c = None" for orig c
    using that by (simp add: isRedirectUrl_def)
  have c: "isRedirectUrl URL_new orig c =
              ((hostname u = ''login.microsoftonline.com'' \<and> suffix ''/oauth2/nativeclient'' (pathname u)) \<or>
               hostname u = ''localhost'' \<or> hostname u = ''127.0.0.1'')"
    if "c \<noteq> orig" "URL_new c = Some u" for orig c u
  proof -
    from that(2) empty have "c \<noteq> []" by auto
    with that show ?thesis by (simp add: isRedirectUrl_def endsWith_def Let_def)
  qed
  have d: "isRedirectUrl URL_new ''https://login.microsoftonline.com/authorize?...''
              ''https://login.microsoftonline.com/common/oauth2/nativeclient?code=abc''"
    by (subst c[OF _ native]) (simp_all add: suffix_to_prefix)
  have e: "isRedirectUrl URL_new ''https://login.microsoftonline.com/authorize?...''
              ''http://localhost:53682/?code=abc''"
    by (subst c[OF _ local]) simp_all
  have f: "\<not> isRedirectUrl URL_new ''https://login.microsoftonline.com/authorize?...'' ''https://example.com/''"
    by (subst c[OF _ example]) simp_all
  show ?thesis using a b[OF bad] b c d e f by blast
qed

theorem isRedirectUrl_classifier_witness:
  "\<not> isRedirectUrl URL_simple ''https://login.microsoftonline.com/authorize?...''
              ''https://login.microsoftonline.com/authorize?...'' \<and>
   \<not> isRedirectUrl URL_simple ''https://login.microsoftonline.com/authorize?...'' ''not a url'' \<and>
   isRedirectUrl URL_simple ''https://login.microsoftonline.com/authorize?...''
              ''https://login.microsoftonline.com/common/oauth2/nativeclient?code=abc'' \<and>
   isRedirectUrl URL_simple ''https://login.microsoftonline.com/authorize?...''
              ''http://localhost:53682/?code=abc'' \<and>
   \<not> isRedirectUrl URL_simple ''https://login.microsoftonline.com/authorize?...'' ''https://example.com/''"
proof -
  have e: "URL_simple [] = None" by (simp add: URL_simple_def)
  have n: "URL_simple ''https://login.microsoftonline.com/common/oauth2/nativeclient?code=abc'' =
                   Some \<lparr>hostname = ''login.microsoftonline.com'', pathname = ''/common/oauth2/nativeclient''\<rparr>"
    by code_simp
  have l: "URL_simple ''http://localhost:53682/?code=abc'' = Some \<lparr>hostname = ''localhost'', pathname = ''/''\<rparr>"
    by code_simp
  have x: "URL_simple ''https://example.com/'' = Some \<lparr>hostname = ''example.com'', pathname = ''/''\<rparr>"
    by code_simp
  have b: "URL_simple ''not a url'' = None" by code_simp
  show ?thesis using isRedirectUrl_classifier[of URL_simple, OF e n l x b] by blast
qed

section \<open>Properties of ensureOnedriveConfig\<close>

text \<open>
  The scan is the regular expression: it succeeds exactly on the texts that split into
  a part before, the word \<open>sync_dir\<close> and a part after, with a word boundary on both
  sides of the word.
\<close>

lemma sync_dir_scan_iff:
  "sync_dir_scan b s \<longleftrightarrow>
     (\<exists>pre post. s = pre @ ''sync_dir'' @ post \<and>
        (if pre = [] then b else \<not> is_word_char (last pre)) \<and> boundary_after post)"
proof (induction s arbitrary: b)
  case Nil
  then show ?case by simp
next
  case (Cons c cs)
  show ?case
  proof
    assume "sync_dir_scan b (c # cs)"
    then consider (here) "b" "prefix ''sync_dir'' (c # cs)" "boundary_after (drop 8 (c # cs))"
      | (later) "sync_dir_scan (\<not> is_word_char c) cs"
      by auto
    then show "\<exists>pre post. c # cs = pre @ ''sync_dir'' @ post \<and>
        (if pre = [] then b else \<not> is_word_char (last pre)) \<and> boundary_after post"
    proof cases
      case here
      from here(2) obtain zs where zs: "c # cs = ''sync_dir'' @ zs" by (auto simp: prefix_def)
      then have "drop 8 (c # cs) = zs" by simp
      with here zs show ?thesis by (intro exI[of _ "[]"] exI[of _ zs]) simp
    next
      case later
      with Cons.IH obtain pre post where p: "cs = pre @ ''sync_dir'' @ post"
        "if pre = [] then \<not> is_word_char c else \<not> is_word_char (last pre)" "boundary_after post"
        by blast
      then show ?thesis by (intro exI[of _ "c # pre"] exI[of _ post]) (auto split: if_splits)
    qed
  next
    assume "\<exists>pre post. c # cs = pre @ ''sync_dir'' @ post \<and>
        (if pre = [] then b else \<not> is_word_char (last pre)) \<and> boundary_after post"
    then obtain pre post where p: "c # cs = pre @ ''sync_dir'' @ post"
        "if pre = [] then b else \<not> is_word_char (last pre)" "boundary_after post" by blast
    show "sync_dir_scan b (c # cs)"
    proof (cases pre)
      case Nil
      with p have "b" "prefix ''sync_dir'' (c # cs)" "drop 8 (c # cs) = post" by (auto simp: prefix_def)
      with p(3) show ?thesis by simp
    next
      case (Cons q qs)
      with p have cs: "cs = qs @ ''sync_dir'' @ post" and q: "q = c" by auto
      from p(2) Cons q have "if qs = [] then \<not> is_word_char c else \<not> is_word_char (last qs)"
        by (auto split: if_splits)
      with cs p(3) Cons.IH[of "\<not> is_word_char c"] have "sync_dir_scan (\<not> is_word_char c) cs" by blast
      then show ?thesis by simp
    qed
  qed
qed

lemma hasSyncDir_iff:
  "hasSyncDir s \<longleftrightarrow> (\<exists>pre post. s = pre @ ''sync_dir'' @ post \<and> boundary_before pre \<and> boundary_after post)"
proof -
  have "boundary_before pre = (if pre = [] then True else \<not> is_word_char (last pre))" for pre
    by (cases pre rule: rev_cases) (simp_all add: boundary_before_def)
  then show ?thesis unfolding hasSyncDir_def sync_dir_scan_iff by simp
qed

lemma hasSyncDir_default: "hasSyncDir (default_config d)"
proof -
  have "default_config d = [] @ ''sync_dir'' @ ('' = \"'' @ d @ ''\"'' @ [CHR 0x0A] @
     ''sync_business_shared_items = \"false\"'' @ [CHR 0x0A])"
    by (simp add: default_config_def)
  moreover have "boundary_before []" by (simp add: boundary_before_def)
  moreover have "boundary_after ('' = \"'' @ d @ ''\"'' @ [CHR 0x0A] @
     ''sync_business_shared_items = \"false\"'' @ [CHR 0x0A])"
    by (simp add: boundary_after_def is_word_char_def)
  ultimately show ?thesis unfolding hasSyncDir_iff by blast
qed

lemma ensure_keeps_sync_dir:
  assumes "config_file fs = Some c" "hasSyncDir c"
  shows "config_file (ensureOnedriveConfig env d fs) = Some c"
  using assms by (simp add: ensureOnedriveConfig_def Let_def)

lemma ensure_twice: "ensureOnedriveConfig env d (ensureOnedriveConfig env d fs) = ensureOnedriveConfig env d fs"
  by (simp add: ensureOnedriveConfig_def Let_def hasSyncDir_default)

text \<open>
  Claim C9. A configuration file whose text holds the word \<open>sync_dir\<close> between word
  boundaries (a file that sets \<open>sync_dir\<close> does: the key stands at the start of a line
  and a blank or \<open>=\<close> follows it) is left as it is by one call and by a second call
  after it, whatever the file system does to the calls. When the file cannot be read
  because it is absent and neither the directory creation nor the write throws, the file
  holds exactly the two default lines afterwards. Running the function twice under the
  same environment gives the state of running it once.
\<close>

theorem ensureOnedriveConfig_idempotent:
  "(config_file fs = Some (pre @ ''sync_dir'' @ post) \<and> boundary_before pre \<and> boundary_after post \<longrightarrow>
      config_file (ensureOnedriveConfig env d fs) = config_file fs \<and>
      config_file (ensureOnedriveConfig env' d (ensureOnedriveConfig env d fs)) = config_file fs) \<and>
   (config_file fs = None \<and> \<not> mkdir_config_throws env \<and> \<not> writeFile_throws env \<longrightarrow>
      config_file (ensureOnedriveConfig env d fs) =
        Some (''sync_dir = \"'' @ d @ ''\"'' @ [CHR 0x0A] @ ''sync_business_shared_items = \"false\"'' @ [CHR 0x0A])) \<and>
   ensureOnedriveConfig env d (ensureOnedriveConfig env d fs) = ensureOnedriveConfig env d fs"
proof (intro conjI impI)
  assume a: "config_file fs = Some (pre @ ''sync_dir'' @ post) \<and> boundary_before pre \<and> boundary_after post"
  then have h: "hasSyncDir (pre @ ''sync_dir'' @ post)" unfolding hasSyncDir_iff by blast
  from a h show 1: "config_file (ensureOnedriveConfig env d fs) = config_file fs"
    by (simp add: ensure_keeps_sync_dir)
  from a h 1 show "config_file (ensureOnedriveConfig env' d (ensureOnedriveConfig env d fs)) = config_file fs"
    by (simp add: ensure_keeps_sync_dir)
next
  assume "config_file fs = None \<and> \<not> mkdir_config_throws env \<and> \<not> writeFile_throws env"
  then show "config_file (ensureOnedriveConfig env d fs) =
        Some (''sync_dir = \"'' @ d @ ''\"'' @ [CHR 0x0A] @ ''sync_business_shared_items = \"false\"'' @ [CHR 0x0A])"
    by (simp add: ensureOnedriveConfig_def Let_def hasSyncDir_def default_config_def)
next
  show "ensureOnedriveConfig env d (ensureOnedriveConfig env d fs) = ensureOnedriveConfig env d fs"
    by (rule ensure_twice)
qed

theorem ensureOnedriveConfig_idempotent_witness:
  "config_file (ensureOnedriveConfig \<lparr>mkdir_config_throws = False, writeFile_throws = False, mkdir_sync_throws = False\<rparr>
      ''/home/u/OneDrive-Temp''
      \<lparr>config_dir_exists = True, config_file = Some ''skip_dotfiles = \"true\"\<newline>sync_dir = \"/data/cloud\"\<newline>'', sync_dir_exists = False\<rparr>)
     = Some ''skip_dotfiles = \"true\"\<newline>sync_dir = \"/data/cloud\"\<newline>'' \<and>
   config_file (ensureOnedriveConfig \<lparr>mkdir_config_throws = False, writeFile_throws = False, mkdir_sync_throws = False\<rparr>
      ''/home/u/OneDrive-Temp''
      \<lparr>config_dir_exists = False, config_file = None, sync_dir_exists = False\<rparr>)
     = Some ''sync_dir = \"/home/u/OneDrive-Temp\"\<newline>sync_business_shared_items = \"false\"\<newline>''"
proof -
  let ?env = "\<lparr>mkdir_config_throws = False, writeFile_throws = False, mkdir_sync_throws = False\<rparr>"
  let ?fs1 = "\<lparr>config_dir_exists = True, config_file = Some ''skip_dotfiles = \"true\"\<newline>sync_dir = \"/data/cloud\"\<newline>'', sync_dir_exists = False\<rparr>"
  let ?fs2 = "\<lparr>config_dir_exists = False, config_file = None, sync_dir_exists = False\<rparr>"
  have b1: "boundary_before ''skip_dotfiles = \"true\"\<newline>''" by (simp add: boundary_before_def is_word_char_def)
  have b2: "boundary_after '' = \"/data/cloud\"\<newline>''" by (simp add: boundary_after_def is_word_char_def)
  have 1: "config_file (ensureOnedriveConfig ?env ''/home/u/OneDrive-Temp'' ?fs1) = config_file ?fs1"
    using ensureOnedriveConfig_idempotent[of ?fs1 "''skip_dotfiles = \"true\"\<newline>''" "'' = \"/data/cloud\"\<newline>''" ?env "''/home/u/OneDrive-Temp''" ?env]
      b1 b2 by simp
  have 2: "config_file (ensureOnedriveConfig ?env ''/home/u/OneDrive-Temp'' ?fs2) =
        Some (''sync_dir = \"'' @ ''/home/u/OneDrive-Temp'' @ ''\"'' @ [CHR 0x0A] @ ''sync_business_shared_items = \"false\"'' @ [CHR 0x0A])"
    using ensureOnedriveConfig_idempotent[of ?fs2 "[]" "[]" ?env "''/home/u/OneDrive-Temp''" ?env] by simp
  from 1 2 show ?thesis by simp
qed

section \<open>Properties of the stale-file cleanup\<close>

lemma clearOldAuthFiles_request_present:
  "request_file fs = Some r \<Longrightarrow> clearOldAuthFiles fs = \<lparr>request_file = None, response_file = None\<rparr>"
  by (cases fs) (auto simp: clearOldAuthFiles_def unlink_request_def unlink_response_def split: option.splits)

lemma clearOldAuthFiles_request_absent:
  "request_file fs = None \<Longrightarrow> clearOldAuthFiles fs = fs"
  by (simp add: clearOldAuthFiles_def unlink_request_def)

text \<open>
  Claim C5. With only \<open>response.url\<close> left behind by an earlier run, the first
  \<open>unlink\<close> throws on the absent \<open>request.url\<close>, the \<open>catch\<close> swallows it and the second
  \<open>unlink\<close> is never reached: the stale response file is still there, with its content,
  when the new run starts to wait. (In the other three combinations both files are
  absent afterwards, as the two lemmas above show.)
\<close>

theorem clearOldAuthFiles_keeps_stale_response:
  "clearOldAuthFiles \<lparr>request_file = None, response_file = Some ''https://login.microsoftonline.com/common/oauth2/nativeclient?code=old''\<rparr>
     = \<lparr>request_file = None, response_file = Some ''https://login.microsoftonline.com/common/oauth2/nativeclient?code=old''\<rparr> \<and>
   \<not> absent_or_empty (response_file (clearOldAuthFiles
       \<lparr>request_file = None, response_file = Some ''https://login.microsoftonline.com/common/oauth2/nativeclient?code=old''\<rparr>))"
  by (simp add: clearOldAuthFiles_def unlink_request_def absent_or_empty_def)

section \<open>Properties of the graceful stop of the monitor\<close>

lemma stop_run_Nil [simp]: "stop_run [] x = x"
  by (simp add: stop_run_def)

lemma stop_run_Cons [simp]: "stop_run (e # evs) x = stop_run evs (stop_step e x)"
  by (simp add: stop_run_def)

lemma stop_step_resolved:
  assumes "resolved c" "\<not> timer_pending c" "onedriveMonitorProcess s = None"
  shows "resolved (fst (stop_step e (c, s))) \<and> \<not> timer_pending (fst (stop_step e (c, s))) \<and>
         resolutions (fst (stop_step e (c, s))) = resolutions c \<and>
         snd (stop_step e (c, s)) = s"
  using assms by (cases e) (simp_all add: done_stop_def)

lemma stop_run_resolved:
  assumes "resolved c" "\<not> timer_pending c" "onedriveMonitorProcess s = None"
  shows "resolved (fst (stop_run evs (c, s))) \<and> \<not> timer_pending (fst (stop_run evs (c, s))) \<and>
         resolutions (fst (stop_run evs (c, s))) = resolutions c \<and> snd (stop_run evs (c, s)) = s"
  using assms
proof (induction evs arbitrary: c)
  case Nil
  then show ?case by simp
next
  case (Cons e evs)
  define c' where "c' = fst (stop_step e (c, s))"
  have st: "stop_step e (c, s) = (c', s)"
    using stop_step_resolved[OF Cons.prems, of e] by (simp add: c'_def prod_eq_iff)
  have r: "resolved c'" "\<not> timer_pending c'" "resolutions c' = resolutions c"
    using stop_step_resolved[OF Cons.prems, of e] by (simp_all add: c'_def)
  from Cons.IH[OF r(1,2) Cons.prems(3)] st r(3) show ?case by simp
qed

lemma stop_no_process:
  assumes "\<not> monitor_has_pid s"
  shows "stopOnedriveMonitorGracefully thr s =
           (\<lparr>stop_pid = None, resolved = False, resolutions = [False], timer_pending = False,
             exit_listener = False, close_listener = False\<rparr>, s)"
  using assms by (auto simp: stopOnedriveMonitorGracefully_def monitor_has_pid_def split: option.splits)

lemma stop_step_idle:
  assumes "\<not> timer_pending c" "\<not> exit_listener c" "\<not> close_listener c"
  shows "stop_step e (c, s) = (c, s)"
  using assms by (cases e) simp_all

lemma stop_run_idle:
  assumes "\<not> timer_pending c" "\<not> exit_listener c" "\<not> close_listener c"
  shows "stop_run evs (c, s) = (c, s)"
  using assms by (induction evs) (simp_all add: stop_step_idle)

lemma stop_first_event:
  assumes "onedriveMonitorProcess s = Some m" "mon_pid m = Some pid"
  shows "\<exists>c' s'. stop_step e (stopOnedriveMonitorGracefully False s) = (c', s') \<and>
           resolved c' \<and> \<not> timer_pending c' \<and> resolutions c' = [True] \<and>
           onedriveMonitorProcess s' = None \<and>
           effects s' = effects s @ [ProcessKill pid SIGTERM] @
                          (if e = TimerFires then [ProcessKill pid SIGKILL] else [])"
  using assms
  by (cases e) (simp_all add: stopOnedriveMonitorGracefully_def done_stop_def do_effect_def winSend_def deliver_def Let_def)


lemma stop_after_first_event:
  assumes "onedriveMonitorProcess s = Some m" "mon_pid m = Some pid"
  shows "resolutions (fst (stop_run (e # es) (stopOnedriveMonitorGracefully False s))) = [True] \<and>
         \<not> timer_pending (fst (stop_run (e # es) (stopOnedriveMonitorGracefully False s))) \<and>
         onedriveMonitorProcess (snd (stop_run (e # es) (stopOnedriveMonitorGracefully False s))) = None \<and>
         effects (snd (stop_run (e # es) (stopOnedriveMonitorGracefully False s))) =
           effects s @ [ProcessKill pid SIGTERM] @
             (if e = TimerFires then [ProcessKill pid SIGKILL] else [])"
proof -
  from stop_first_event[OF assms, of e] obtain c' s' where
    st: "stop_step e (stopOnedriveMonitorGracefully False s) = (c', s')"
    and r: "resolved c'" "\<not> timer_pending c'" "resolutions c' = [True]"
           "onedriveMonitorProcess s' = None"
    and e: "effects s' = effects s @ [ProcessKill pid SIGTERM] @
                          (if e = TimerFires then [ProcessKill pid SIGKILL] else [])"
    by blast
  from stop_run_resolved[OF r(1,2,4), of es] st r e show ?thesis by simp
qed

lemma stop_sigterm_throws:
  assumes "onedriveMonitorProcess s = Some m" "mon_pid m = Some pid"
  shows "stop_run evs (stopOnedriveMonitorGracefully True s) =
           (\<lparr>stop_pid = Some pid, resolved = True, resolutions = [False], timer_pending = False,
             exit_listener = False, close_listener = False\<rparr>, do_effect (ProcessKill pid SIGTERM) s)"
  using assms by (simp add: stopOnedriveMonitorGracefully_def done_stop_def Let_def stop_run_idle)

lemma stop_waiting:
  assumes "onedriveMonitorProcess s = Some m" "mon_pid m = Some pid"
  shows "stopOnedriveMonitorGracefully False s =
           (\<lparr>stop_pid = Some pid, resolved = False, resolutions = [], timer_pending = True,
             exit_listener = True, close_listener = True\<rparr>, do_effect (ProcessKill pid SIGTERM) s)"
  using assms by (simp add: stopOnedriveMonitorGracefully_def Let_def)

lemma stop_run_outcome:
  "resolutions (fst (stop_run evs (stopOnedriveMonitorGracefully thr s))) =
     (if monitor_has_pid s \<and> \<not> thr then (if evs = [] then [] else [True]) else [False]) \<and>
   timer_pending (fst (stop_run evs (stopOnedriveMonitorGracefully thr s))) =
     (monitor_has_pid s \<and> \<not> thr \<and> evs = [])"
proof (cases "monitor_has_pid s")
  case False
  then show ?thesis by (simp add: stop_no_process stop_run_idle)
next
  case True
  then obtain m pid where m: "onedriveMonitorProcess s = Some m" "mon_pid m = Some pid"
    by (auto simp: monitor_has_pid_def split: option.splits)
  show ?thesis
  proof (cases thr)
    case True
    with \<open>monitor_has_pid s\<close> stop_sigterm_throws[OF m, of evs] show ?thesis by simp
  next
    case False
    show ?thesis
    proof (cases evs)
      case Nil
      with False \<open>monitor_has_pid s\<close> stop_waiting[OF m] show ?thesis by simp
    next
      case (Cons e es)
      with False \<open>monitor_has_pid s\<close> stop_after_first_event[OF m, of e es] show ?thesis by simp
    qed
  qed
qed

lemma stop_run_signals:
  assumes m: "onedriveMonitorProcess s = Some \<lparr>mon_pid = Some pid\<rparr>"
  shows "effects (snd (stop_run evs (stopOnedriveMonitorGracefully False s))) =
           effects s @ [ProcessKill pid SIGTERM] @
             (case evs of TimerFires # _ \<Rightarrow> [ProcessKill pid SIGKILL] | _ \<Rightarrow> [])"
proof (cases evs)
  case Nil
  with stop_waiting[OF m] show ?thesis by (simp add: do_effect_def)
next
  case (Cons e es)
  with stop_after_first_event[OF m, of pid e es] show ?thesis
    by (cases e) simp_all
qed

lemma monitor_running_state_eq:
  "monitor_running_state =
     \<lparr>runs = [], activeAuthRun = None, handlers = [], children = [], onedriveProcess = None,
      windows = [], authWindow = None, onedriveMonitorProcess = Some \<lparr>mon_pid = Some 1000\<rparr>,
      next_pid = 1001, isQuitting = False, win_ready = True, token_exists = True,
      ui = [\<lparr>channel = AuthResult, status = Info, message = MsgMonitorStarted\<rparr>],
      effects = [Spawn OnedriveMonitor]\<rparr>"
  by (simp add: monitor_running_state_def maybeStartMonitorIfToken_def startOnedriveMonitor_def
      initial_state_def uiSend_def deliver_def do_effect_def Let_def)

text \<open>
  Claim C7, as the code has it. Whatever timer, exit and close events follow a call, and
  in whatever order, \<open>resolve\<close> is called at most once. It is called with \<open>false\<close> at
  once when there is no monitor reference, when the reference has no numeric pid, and
  also when a reference with a pid exists but \<open>process.kill(pid, 'SIGTERM')\<close> throws.
  Otherwise nothing is resolved while no event has come, and the timer is pending all
  that time; the first event, whichever it is, resolves \<open>true\<close>, and the later ones
  change nothing. The SIGKILL is sent exactly when the timer is the first event.
\<close>

theorem stopOnedriveMonitorGracefully_resolves_once:
  "length (resolutions (fst (stop_run evs (stopOnedriveMonitorGracefully thr s)))) \<le> 1 \<and>
   resolutions (fst (stop_run evs (stopOnedriveMonitorGracefully thr s))) =
     (if monitor_has_pid s \<and> \<not> thr then (if evs = [] then [] else [True]) else [False]) \<and>
   timer_pending (fst (stop_run evs (stopOnedriveMonitorGracefully thr s))) =
     (monitor_has_pid s \<and> \<not> thr \<and> evs = []) \<and>
   (\<forall>pid. onedriveMonitorProcess s = Some \<lparr>mon_pid = Some pid\<rparr> \<and> \<not> thr \<longrightarrow>
      effects (snd (stop_run evs (stopOnedriveMonitorGracefully thr s))) =
        effects s @ [ProcessKill pid SIGTERM] @
          (case evs of TimerFires # _ \<Rightarrow> [ProcessKill pid SIGKILL] | _ \<Rightarrow> []))"
proof -
  have "length (resolutions (fst (stop_run evs (stopOnedriveMonitorGracefully thr s)))) \<le> 1"
    using stop_run_outcome[of evs thr s] by simp
  moreover have "\<forall>pid. onedriveMonitorProcess s = Some \<lparr>mon_pid = Some pid\<rparr> \<and> \<not> thr \<longrightarrow>
      effects (snd (stop_run evs (stopOnedriveMonitorGracefully thr s))) =
        effects s @ [ProcessKill pid SIGTERM] @
          (case evs of TimerFires # _ \<Rightarrow> [ProcessKill pid SIGKILL] | _ \<Rightarrow> [])"
    using stop_run_signals[of s _ evs] by (cases thr) simp_all
  ultimately show ?thesis using stop_run_outcome[of evs thr s] by simp
qed

theorem stopOnedriveMonitorGracefully_resolves_once_witness:
  "resolutions (fst (stop_run [TimerFires, MonitorExit, MonitorClose]
       (stopOnedriveMonitorGracefully False monitor_running_state))) = [True] \<and>
   effects (snd (stop_run [TimerFires, MonitorExit, MonitorClose]
       (stopOnedriveMonitorGracefully False monitor_running_state))) =
     [Spawn OnedriveMonitor, ProcessKill 1000 SIGTERM, ProcessKill 1000 SIGKILL]"
proof -
  have m: "onedriveMonitorProcess monitor_running_state = Some \<lparr>mon_pid = Some 1000\<rparr>"
    and e: "effects monitor_running_state = [Spawn OnedriveMonitor]"
    and h: "monitor_has_pid monitor_running_state"
    by (simp_all add: monitor_running_state_eq monitor_has_pid_def)
  from stopOnedriveMonitorGracefully_resolves_once
         [of "[TimerFires, MonitorExit, MonitorClose]" False monitor_running_state] m e h
  show ?thesis by simp
qed

text \<open>
  The claim as written says that the call resolves \<open>true\<close> whenever a monitor reference
  exists. The exit observer of the monitor only logs, so the reference outlives a
  monitor that ended by itself; the SIGTERM then throws, and the call resolves \<open>false\<close>
  with the reference still in place.
\<close>

theorem stop_resolves_false_with_reference:
  "onedriveMonitorProcess monitor_running_state = Some \<lparr>mon_pid = Some 1000\<rparr> \<and>
   resolutions (fst (stopOnedriveMonitorGracefully True monitor_running_state)) = [False]"
  by (simp add: monitor_running_state_eq stopOnedriveMonitorGracefully_def done_stop_def Let_def)

section \<open>Properties of force-sync\<close>

lemma spawned_commands_do_effect [simp]:
  "spawned_commands (do_effect e s) = spawned_commands s @ (case spawned_command e of None \<Rightarrow> [] | Some c \<Rightarrow> [c])"
  by (simp add: spawned_commands_def do_effect_def map_filter_def split: option.splits)

lemma spawned_commands_winSend [simp]: "spawned_commands (winSend ch st m s) = spawned_commands s"
  by (simp add: spawned_commands_def winSend_def deliver_def)

lemma spawned_commands_uiSend [simp]: "spawned_commands (uiSend ch st m s) = spawned_commands s"
  by (simp add: spawned_commands_def uiSend_def deliver_def)

lemma spawned_commands_monitor_update [simp]:
  "spawned_commands (s\<lparr>onedriveMonitorProcess := x\<rparr>) = spawned_commands s"
  by (simp add: spawned_commands_def)

lemma spawned_commands_startOnedriveMonitor:
  "spawned_commands (startOnedriveMonitor s) = spawned_commands s @ [OnedriveMonitor]"
  by (cases "onedriveMonitorProcess s") (simp_all add: startOnedriveMonitor_def Let_def spawned_commands_def do_effect_def uiSend_def deliver_def map_filter_def)

lemma monitor_startOnedriveMonitor:
  "onedriveMonitorProcess (startOnedriveMonitor s) = Some \<lparr>mon_pid = Some (next_pid s)\<rparr>"
  by (cases "onedriveMonitorProcess s") (simp_all add: startOnedriveMonitor_def Let_def do_effect_def uiSend_def deliver_def)

lemma stop_keeps:
  "token_exists (snd (stop_step e (c, s))) = token_exists s \<and>
   spawned_commands (snd (stop_step e (c, s))) = spawned_commands s"
  by (cases e) (auto simp: Let_def winSend_def deliver_def spawned_commands_def do_effect_def map_filter_def split: option.splits)

lemma stop_run_keeps:
  "token_exists (snd (stop_run evs x)) = token_exists (snd x) \<and>
   spawned_commands (snd (stop_run evs x)) = spawned_commands (snd x)"
proof (induction evs arbitrary: x)
  case Nil
  then show ?case by simp
next
  case (Cons e evs)
  obtain c s where x: "x = (c, s)" by (cases x)
  from Cons.IH[of "stop_step e x"] stop_keeps[of e c s] x show ?case by simp
qed

lemma stop_begin_keeps:
  "token_exists (snd (stopOnedriveMonitorGracefully thr s)) = token_exists s \<and>
   spawned_commands (snd (stopOnedriveMonitorGracefully thr s)) = spawned_commands s"
  by (auto simp: stopOnedriveMonitorGracefully_def Let_def do_effect_def spawned_commands_def map_filter_def split: option.splits)

lemma stop_monitor_reference:
  "onedriveMonitorProcess (snd (stop_run evs (stopOnedriveMonitorGracefully thr s))) =
     (if monitor_has_pid s \<and> \<not> thr \<and> evs \<noteq> [] then None else onedriveMonitorProcess s)"
proof (cases "monitor_has_pid s")
  case False
  then show ?thesis by (simp add: stop_no_process stop_run_idle)
next
  case True
  then obtain m pid where m: "onedriveMonitorProcess s = Some m" "mon_pid m = Some pid"
    by (auto simp: monitor_has_pid_def split: option.splits)
  show ?thesis
  proof (cases thr)
    case True
    with stop_sigterm_throws[OF m, of evs] show ?thesis by (simp add: do_effect_def)
  next
    case False
    show ?thesis
    proof (cases evs)
      case Nil
      with False stop_waiting[OF m] show ?thesis by (simp add: do_effect_def)
    next
      case (Cons e es)
      with False \<open>monitor_has_pid s\<close> stop_after_first_event[OF m, of e es] show ?thesis by simp
    qed
  qed
qed

lemma stop_next_pid:
  "next_pid (snd (stop_run evs x)) = next_pid (snd x)"
proof (induction evs arbitrary: x)
  case Nil
  then show ?case by simp
next
  case (Cons e evs)
  obtain c s where x: "x = (c, s)" by (cases x)
  have "next_pid (snd (stop_step e (c, s))) = next_pid s"
    by (cases e) (auto simp: Let_def winSend_def deliver_def do_effect_def split: option.splits)
  with Cons.IH[of "stop_step e x"] x show ?case by simp
qed

lemma stop_begin_next_pid: "next_pid (snd (stopOnedriveMonitorGracefully thr s)) = next_pid s"
  by (auto simp: stopOnedriveMonitorGracefully_def Let_def do_effect_def split: option.splits)

lemma fields_do_effect [simp]:
  "onedriveMonitorProcess (do_effect e s) = onedriveMonitorProcess s"
  "next_pid (do_effect e s) = next_pid s"
  "token_exists (do_effect e s) = token_exists s"
  "win_ready (do_effect e s) = win_ready s"
  by (simp_all add: do_effect_def)

lemma next_pid_winSend [simp]: "next_pid (winSend ch st m s) = next_pid s"
  by (simp add: winSend_def deliver_def)

lemma monitor_winSend [simp]: "onedriveMonitorProcess (winSend ch st m s) = onedriveMonitorProcess s"
  by (simp add: winSend_def deliver_def)

lemma effects_winSend [simp]: "effects (winSend ch st m s) = effects s"
  by (simp add: winSend_def deliver_def)

lemma ui_winSend:
  "ui (winSend ch st m s) = ui s @ (if win_ready s then [\<lparr>channel = ch, status = st, message = m\<rparr>] else [])"
  by (simp add: winSend_def deliver_def)

lemma no_token_state_eq:
  "no_token_state =
     \<lparr>runs = [], activeAuthRun = None, handlers = [], children = [], onedriveProcess = None,
      windows = [], authWindow = None, onedriveMonitorProcess = None,
      next_pid = 1000, isQuitting = False, win_ready = True, token_exists = False,
      ui = [\<lparr>channel = AuthResult, status = Info, message = MsgNoSavedToken\<rparr>],
      effects = []\<rparr>"
  by (simp add: no_token_state_def maybeStartMonitorIfToken_def
      initial_state_def uiSend_def deliver_def)

text \<open>
  Claim C6, as the code has it. With the client installed and no token file,
  \<open>force-sync\<close> answers \<open>failed\<close> with the reason \<open>no-token\<close>, sends one error event,
  leaves the monitor reference alone, and the one sub-process it has spawned is the
  \<open>which onedrive\<close> probe of the installation check: no sync child, no monitor, no
  signal. The installation check comes first: when the probe does not exit with code 0
  the answer is \<open>onedrive-not-installed\<close>, whether a token exists or not.
\<close>

theorem force_sync_no_token:
  "(which_result env = WhichExit (Some 0) \<and> \<not> token_exists s \<longrightarrow>
      fst (force_sync env s) = Some \<lparr>reply_status = ''failed'', reply_reason = Some ''no-token''\<rparr> \<and>
      effects (snd (force_sync env s)) = effects s @ [Spawn WhichOnedrive] \<and>
      spawned_commands (snd (force_sync env s)) = spawned_commands s @ [WhichOnedrive] \<and>
      onedriveMonitorProcess (snd (force_sync env s)) = onedriveMonitorProcess s \<and>
      ui (snd (force_sync env s)) =
        ui s @ (if win_ready s then [\<lparr>channel = SyncResult, status = Error, message = MsgNoToken\<rparr>] else [])) \<and>
   (which_result env \<noteq> WhichExit (Some 0) \<longrightarrow>
      fst (force_sync env s) =
        Some \<lparr>reply_status = ''failed'', reply_reason = Some ''onedrive-not-installed''\<rparr> \<and>
      effects (snd (force_sync env s)) = effects s @ [Spawn WhichOnedrive])"
proof (intro conjI impI)
  assume a: "which_result env = WhichExit (Some 0) \<and> \<not> token_exists s"
  then have f: "force_sync env s =
      (Some \<lparr>reply_status = ''failed'', reply_reason = Some ''no-token''\<rparr>,
       winSend SyncResult Error MsgNoToken (do_effect (Spawn WhichOnedrive) s))"
    by (simp add: force_sync_def checkOnedriveInstallation_def do_effect_def)
  show "fst (force_sync env s) = Some \<lparr>reply_status = ''failed'', reply_reason = Some ''no-token''\<rparr>"
    by (simp add: f)
  show "effects (snd (force_sync env s)) = effects s @ [Spawn WhichOnedrive]"
    by (simp add: f do_effect_def)
  show "spawned_commands (snd (force_sync env s)) = spawned_commands s @ [WhichOnedrive]"
    by (simp add: f)
  show "onedriveMonitorProcess (snd (force_sync env s)) = onedriveMonitorProcess s"
    by (simp add: f do_effect_def)
  show "ui (snd (force_sync env s)) =
        ui s @ (if win_ready s then [\<lparr>channel = SyncResult, status = Error, message = MsgNoToken\<rparr>] else [])"
    by (simp add: f ui_winSend do_effect_def)
next
  assume a: "which_result env \<noteq> WhichExit (Some 0)"
  then have f: "force_sync env s =
      (Some \<lparr>reply_status = ''failed'', reply_reason = Some ''onedrive-not-installed''\<rparr>,
       winSend SyncResult Error MsgNotInstalled (do_effect (Spawn WhichOnedrive) s))"
    by (cases "which_result env") (simp_all add: force_sync_def checkOnedriveInstallation_def do_effect_def)
  show "fst (force_sync env s) =
        Some \<lparr>reply_status = ''failed'', reply_reason = Some ''onedrive-not-installed''\<rparr>"
    by (simp add: f)
  show "effects (snd (force_sync env s)) = effects s @ [Spawn WhichOnedrive]"
    by (simp add: f do_effect_def)
qed

theorem force_sync_no_token_witness:
  "fst (force_sync installed_env no_token_state) =
      Some \<lparr>reply_status = ''failed'', reply_reason = Some ''no-token''\<rparr> \<and>
   spawned_commands (snd (force_sync installed_env no_token_state)) = [WhichOnedrive] \<and>
   fst (force_sync (installed_env\<lparr>which_result := WhichExit (Some 1)\<rparr>) no_token_state) =
      Some \<lparr>reply_status = ''failed'', reply_reason = Some ''onedrive-not-installed''\<rparr>"
proof -
  have 1: "which_result installed_env = WhichExit (Some 0)" "\<not> token_exists no_token_state"
     "spawned_commands no_token_state = []"
    by (simp_all add: installed_env_def no_token_state_eq spawned_commands_def map_filter_def)
  have 2: "which_result (installed_env\<lparr>which_result := WhichExit (Some 1)\<rparr>) \<noteq> WhichExit (Some 0)"
    by simp
  from force_sync_no_token[of installed_env no_token_state] 1
       force_sync_no_token[of "installed_env\<lparr>which_result := WhichExit (Some 1)\<rparr>" no_token_state] 2
  show ?thesis by simp
qed

text \<open>
  The claim as written says that no sub-process at all is spawned on this path. The
  installation check is itself a spawned \<open>which\<close>, so one sub-process has been spawned
  when the handler answers \<open>no-token\<close>.
\<close>

theorem force_sync_no_token_spawns_probe:
  "fst (force_sync installed_env no_token_state) =
      Some \<lparr>reply_status = ''failed'', reply_reason = Some ''no-token''\<rparr> \<and>
   effects no_token_state = [] \<and>
   effects (snd (force_sync installed_env no_token_state)) = [Spawn WhichOnedrive]"
  by (simp add: force_sync_def checkOnedriveInstallation_def installed_env_def no_token_state_eq
      do_effect_def winSend_def deliver_def)

text \<open>
  Claim C8. With the client installed, the token present and the sync child exiting with
  \<open>code\<close>, the handler returns, and after the \<open>which\<close> probe and the sync child it spawns
  the monitor exactly when the monitor was running before the stop (the reference had a
  pid and the SIGTERM was delivered, which is what \<open>wasRunning\<close> reports) or the code
  is 0. When it does, the monitor reference is the fresh child; when it does not, the
  reference is what it was. The premise on the events says that a stop that waits is
  answered by the timer or by the monitor's exit, as it always is.
\<close>

theorem force_sync_restarts_monitor:
  assumes inst: "which_result env = WhichExit (Some 0)"
    and tok: "token_exists s"
    and ex: "sync_end env = Exits code"
    and ev: "monitor_events env \<noteq> [] \<or> sigterm_throws env \<or> \<not> monitor_has_pid s"
  shows "fst (force_sync env s) =
           Some \<lparr>reply_status = (if code = Some 0 then ''ok'' else ''failed''), reply_reason = None\<rparr> \<and>
         spawned_commands (snd (force_sync env s)) =
           spawned_commands s @ [WhichOnedrive, OnedriveSync] @
             (if (monitor_has_pid s \<and> \<not> sigterm_throws env) \<or> code = Some 0
              then [OnedriveMonitor] else []) \<and>
         onedriveMonitorProcess (snd (force_sync env s)) =
           (if (monitor_has_pid s \<and> \<not> sigterm_throws env) \<or> code = Some 0
            then Some \<lparr>mon_pid = Some (next_pid s)\<rparr> else onedriveMonitorProcess s)"
proof -
  let ?s1 = "do_effect (Spawn WhichOnedrive) s"
  let ?stop = "stop_run (monitor_events env) (stopOnedriveMonitorGracefully (sigterm_throws env) ?s1)"
  let ?w = "monitor_has_pid s \<and> \<not> sigterm_throws env"
  have hp: "monitor_has_pid ?s1 = monitor_has_pid s"
    by (simp add: monitor_has_pid_def do_effect_def)
  have res: "resolutions (fst ?stop) = [?w]"
    using stop_run_outcome[of "monitor_events env" "sigterm_throws env" ?s1] ev hp
    by auto
  have sp: "spawned_commands (snd ?stop) = spawned_commands s @ [WhichOnedrive]"
    using stop_run_keeps[of "monitor_events env" "stopOnedriveMonitorGracefully (sigterm_throws env) ?s1"]
      stop_begin_keeps[of "sigterm_throws env" ?s1] by simp
  have mon: "onedriveMonitorProcess (snd ?stop) = (if ?w then None else onedriveMonitorProcess s)"
    using stop_monitor_reference[of "monitor_events env" "sigterm_throws env" ?s1] ev hp
    by auto
  have np: "next_pid (snd ?stop) = next_pid s"
    using stop_next_pid[of "monitor_events env" "stopOnedriveMonitorGracefully (sigterm_throws env) ?s1"]
      stop_begin_next_pid[of "sigterm_throws env" ?s1] by (simp add: do_effect_def)
  obtain c s2 where cs: "?stop = (c, s2)" by (cases ?stop)
  with res sp mon np have c: "resolutions c = [?w]" "spawned_commands s2 = spawned_commands s @ [WhichOnedrive]"
    "onedriveMonitorProcess s2 = (if ?w then None else onedriveMonitorProcess s)" "next_pid s2 = next_pid s"
    by simp_all
  have unfold: "force_sync env s =
     (let s3 = (if ?w then winSend SyncResult Info MsgMonitorStopped s2 else s2);
          s4 = do_effect (Spawn OnedriveSync) s3;
          syncOk = (code = Some 0);
          s5 = (if syncOk then winSend SyncResult Success MsgSyncDone s4
                else winSend SyncResult Error (MsgSyncFailedCode code) s4);
          s6 = (if ?w \<or> syncOk then startOnedriveMonitor s5 else s5)
      in (Some \<lparr>reply_status = (if syncOk then ''ok'' else ''failed''), reply_reason = None\<rparr>, s6))"
    using inst tok ex cs c(1)
    by (simp add: force_sync_def checkOnedriveInstallation_def do_effect_def Let_def)
  show ?thesis
    unfolding unfold Let_def using c(2,3,4)
    by (simp add: spawned_commands_startOnedriveMonitor monitor_startOnedriveMonitor)
qed

theorem force_sync_restarts_monitor_witness:
  "spawned_commands (snd (force_sync (installed_env\<lparr>sync_end := Exits (Some 1)\<rparr>) monitor_running_state)) =
     [OnedriveMonitor, WhichOnedrive, OnedriveSync, OnedriveMonitor] \<and>
   spawned_commands (snd (force_sync (installed_env\<lparr>sigterm_throws := True, sync_end := Exits (Some 1)\<rparr>)
        monitor_running_state)) =
     [OnedriveMonitor, WhichOnedrive, OnedriveSync] \<and>
   spawned_commands (snd (force_sync (installed_env\<lparr>sigterm_throws := True\<rparr>) monitor_running_state)) =
     [OnedriveMonitor, WhichOnedrive, OnedriveSync, OnedriveMonitor] \<and>
   fst (force_sync (installed_env\<lparr>sigterm_throws := True\<rparr>) monitor_running_state) =
     Some \<lparr>reply_status = ''ok'', reply_reason = None\<rparr>"
proof -
  have s: "token_exists monitor_running_state" "monitor_has_pid monitor_running_state"
    "spawned_commands monitor_running_state = [OnedriveMonitor]"
    by (simp_all add: monitor_running_state_eq monitor_has_pid_def spawned_commands_def map_filter_def)
  let ?e1 = "installed_env\<lparr>sync_end := Exits (Some 1)\<rparr>"
  let ?e2 = "installed_env\<lparr>sigterm_throws := True, sync_end := Exits (Some 1)\<rparr>"
  let ?e3 = "installed_env\<lparr>sigterm_throws := True\<rparr>"
  have 1: "which_result ?e1 = WhichExit (Some 0)" "sync_end ?e1 = Exits (Some 1)"
    "monitor_events ?e1 \<noteq> [] \<or> sigterm_throws ?e1 \<or> \<not> monitor_has_pid monitor_running_state"
    "\<not> sigterm_throws ?e1"
    by (simp_all add: installed_env_def)
  have 2: "which_result ?e2 = WhichExit (Some 0)" "sync_end ?e2 = Exits (Some 1)"
    "monitor_events ?e2 \<noteq> [] \<or> sigterm_throws ?e2 \<or> \<not> monitor_has_pid monitor_running_state"
    "sigterm_throws ?e2"
    by (simp_all add: installed_env_def)
  have 3: "which_result ?e3 = WhichExit (Some 0)" "sync_end ?e3 = Exits (Some 0)"
    "monitor_events ?e3 \<noteq> [] \<or> sigterm_throws ?e3 \<or> \<not> monitor_has_pid monitor_running_state"
    "sigterm_throws ?e3"
    by (simp_all add: installed_env_def)
  from force_sync_restarts_monitor[OF 1(1) s(1) 1(2) 1(3)]
       force_sync_restarts_monitor[OF 2(1) s(1) 2(2) 2(3)]
       force_sync_restarts_monitor[OF 3(1) s(1) 3(2) 3(3)]
       s 1(4) 2(4) 3(4)
  show ?thesis by simp
qed

section \<open>Properties of the auth run\<close>

subsection \<open>The active run\<close>

lemma same_runs_refl [simp]: "same_runs s s"
  by (simp add: same_runs_def)


lemma same_runs_trans: "same_runs s'' s' \<Longrightarrow> same_runs s' s \<Longrightarrow> same_runs s'' s"
  by (simp add: same_runs_def)

lemma same_runs_basic [simp]:
  "same_runs (deliver ch st m s) s"
  "same_runs (uiSend ch st m s) s"
  "same_runs (winSend ch st m s) s"
  "same_runs (senderSend ch st m s) s"
  "same_runs (do_effect e s) s"
  "same_runs (set_pc r pc s) s"
  by (simp_all add: same_runs_def deliver_def uiSend_def winSend_def senderSend_def do_effect_def set_pc_def)

lemma same_runs_startOnedriveMonitor [simp]: "same_runs (startOnedriveMonitor s) s"
  by (cases "onedriveMonitorProcess s")
     (simp_all add: same_runs_def startOnedriveMonitor_def Let_def uiSend_def deliver_def do_effect_def)

lemma same_runs_decideAfterExit [simp]: "same_runs (decideAfterExit s) s"
  unfolding decideAfterExit_def
  by (auto intro: same_runs_trans[OF same_runs_startOnedriveMonitor] simp: same_runs_basic)

lemma same_runs_decide_pow [simp]: "same_runs ((decideAfterExit ^^ n) s) s"
  by (induction n) (auto intro: same_runs_trans[OF same_runs_decideAfterExit])

lemma same_runs_close_kill [simp]:
  "same_runs (close_auth_window s) s" "same_runs (kill_auth_child s) s"
  by (auto simp: same_runs_def close_auth_window_def kill_auth_child_def do_effect_def split: option.splits)



lemma inv_field_updates [simp]:
  "active_inv (s\<lparr>onedriveProcess := x\<rparr>) = active_inv s"
  "active_inv (s\<lparr>windows := ws\<rparr>) = active_inv s"
  "active_inv (s\<lparr>children := cs\<rparr>) = active_inv s"
  "active_inv (s\<lparr>authWindow := a\<rparr>) = active_inv s"
  "active_inv (s\<lparr>token_exists := b\<rparr>) = active_inv s"
  "active_inv (s\<lparr>isQuitting := b\<rparr>) = active_inv s"
  "active_inv (s\<lparr>win_ready := b\<rparr>) = active_inv s"
  "active_inv (s\<lparr>handlers := h\<rparr>) = active_inv s"
  by (simp_all add: active_inv_def is_settled_def)

lemma inv_same [simp]:
  "active_inv (deliver ch st m s) = active_inv s"
  "active_inv (uiSend ch st m s) = active_inv s"
  "active_inv (winSend ch st m s) = active_inv s"
  "active_inv (senderSend ch st m s) = active_inv s"
  "active_inv (do_effect e s) = active_inv s"
  "active_inv (set_pc r pc s) = active_inv s"
  "active_inv (startOnedriveMonitor s) = active_inv s"
  "active_inv (decideAfterExit s) = active_inv s"
  "active_inv ((decideAfterExit ^^ n) s) = active_inv s"
  by (simp_all add: active_inv_def is_settled_def
      same_runs_basic[unfolded same_runs_def] same_runs_startOnedriveMonitor[unfolded same_runs_def]
      same_runs_decideAfterExit[unfolded same_runs_def] same_runs_decide_pow[unfolded same_runs_def])




subsection \<open>The exit observer of the auth child\<close>


lemma ui_settleAuthRun [simp]: "ui (settleAuthRun r s) = ui s"
  by (cases r) (simp_all add: settleAuthRun_def)

lemma failAuthFlow_unsettled:
  assumes "r < length (runs s)" "\<not> is_settled s r"
  shows "is_settled (failAuthFlow m (Some r) s) r \<and>
         ui (failAuthFlow m (Some r) s) =
           ui s @ (if win_ready s \<and> \<not> isQuitting s
                   then [\<lparr>channel = AuthResult, status = Error, message = m\<rparr>] else [])"
  using assms
  by (auto simp: failAuthFlow_def settleAuthRun_def is_settled_def Let_def uiSend_def deliver_def
      kill_auth_child_def close_auth_window_def do_effect_def split: option.splits)

lemma child_running_state_eq:
  "child_running_state =
     \<lparr>runs = [\<lparr>run_id = 1700000000000, settled = False\<rparr>], activeAuthRun = Some 0,
      handlers = [AwaitAuthUrl],
      children = [\<lparr>owner = 0, exitCode = None, has_exited = False, has_closed = False,
                   once_exit = 0, once_close = 0\<rparr>],
      onedriveProcess = Some 0, windows = [], authWindow = None,
      onedriveMonitorProcess = None, next_pid = 1000, isQuitting = False, win_ready = True,
      token_exists = False,
      ui = [\<lparr>channel = AuthResult, status = Info, message = MsgNoSavedToken\<rparr>],
      effects = [Spawn WhichOnedrive, Spawn OnedriveAuth]\<rparr>"
  by code_simp

text \<open>
  Claim C10. The exit observer calls \<open>failAuthFlow\<close> exactly when the code is not 0
  (\<open>null\<close>, the code of a child that a signal ended, is not 0 either) and the signal is
  neither SIGTERM nor SIGKILL; otherwise all it does is clear \<open>onedriveProcess\<close>. After
  a SIGTERM or SIGKILL no event has been sent, no run has changed and nothing has been
  done to the outside. For a run that is not yet settled, the run is settled afterwards
  exactly in the failing case, and the error event is the one event sent then (when the
  main window exists and the application is not quitting).
\<close>

theorem exit_observer_failure_path:
  "exit_observer r code sig s =
     (if code \<noteq> Some 0 \<and> sig \<noteq> Some SIGTERM \<and> sig \<noteq> Some SIGKILL
      then failAuthFlow (MsgAuthFailedCode code) (Some r) (s\<lparr>onedriveProcess := None\<rparr>)
      else s\<lparr>onedriveProcess := None\<rparr>) \<and>
   (sig = Some SIGTERM \<or> sig = Some SIGKILL \<longrightarrow>
      ui (exit_observer r code sig s) = ui s \<and>
      runs (exit_observer r code sig s) = runs s \<and>
      activeAuthRun (exit_observer r code sig s) = activeAuthRun s \<and>
      effects (exit_observer r code sig s) = effects s) \<and>
   (r < length (runs s) \<and> \<not> is_settled s r \<longrightarrow>
      is_settled (exit_observer r code sig s) r =
        (code \<noteq> Some 0 \<and> sig \<noteq> Some SIGTERM \<and> sig \<noteq> Some SIGKILL) \<and>
      ui (exit_observer r code sig s) =
        ui s @ (if code \<noteq> Some 0 \<and> sig \<noteq> Some SIGTERM \<and> sig \<noteq> Some SIGKILL \<and>
                   win_ready s \<and> \<not> isQuitting s
                then [\<lparr>channel = AuthResult, status = Error, message = MsgAuthFailedCode code\<rparr>]
                else []))"
proof (intro conjI impI)
  show eq: "exit_observer r code sig s =
     (if code \<noteq> Some 0 \<and> sig \<noteq> Some SIGTERM \<and> sig \<noteq> Some SIGKILL
      then failAuthFlow (MsgAuthFailedCode code) (Some r) (s\<lparr>onedriveProcess := None\<rparr>)
      else s\<lparr>onedriveProcess := None\<rparr>)"
    by (simp add: exit_observer_def Let_def)
  assume a: "r < length (runs s) \<and> \<not> is_settled s r"
  then have u: "r < length (runs (s\<lparr>onedriveProcess := None\<rparr>))"
    "\<not> is_settled (s\<lparr>onedriveProcess := None\<rparr>) r"
    by (simp_all add: is_settled_def)
  show "is_settled (exit_observer r code sig s) r =
        (code \<noteq> Some 0 \<and> sig \<noteq> Some SIGTERM \<and> sig \<noteq> Some SIGKILL)"
    using failAuthFlow_unsettled[OF u, of "MsgAuthFailedCode code"] u(2) unfolding eq by simp
  show "ui (exit_observer r code sig s) =
        ui s @ (if code \<noteq> Some 0 \<and> sig \<noteq> Some SIGTERM \<and> sig \<noteq> Some SIGKILL \<and>
                   win_ready s \<and> \<not> isQuitting s
                then [\<lparr>channel = AuthResult, status = Error, message = MsgAuthFailedCode code\<rparr>]
                else [])"
    using failAuthFlow_unsettled[OF u, of "MsgAuthFailedCode code"] unfolding eq by simp
qed (auto simp: exit_observer_def Let_def)

theorem exit_observer_failure_path_witness:
  "ui (exit_observer 0 None (Some SIGTERM) child_running_state) = ui child_running_state \<and>
   is_settled (exit_observer 0 None (Some SIGTERM) child_running_state) 0 = False \<and>
   is_settled (exit_observer 0 (Some 1) None child_running_state) 0 \<and>
   is_settled (exit_observer 0 (Some 0) None child_running_state) 0 = False \<and>
   ui (exit_observer 0 (Some 1) None child_running_state) =
     [\<lparr>channel = AuthResult, status = Info, message = MsgNoSavedToken\<rparr>,
      \<lparr>channel = AuthResult, status = Error, message = MsgAuthFailedCode (Some 1)\<rparr>]"
proof -
  have s: "0 < length (runs child_running_state) \<and> \<not> is_settled child_running_state 0"
    "win_ready child_running_state" "\<not> isQuitting child_running_state"
    "ui child_running_state = [\<lparr>channel = AuthResult, status = Info, message = MsgNoSavedToken\<rparr>]"
    by (simp_all add: child_running_state_eq is_settled_def)
  from exit_observer_failure_path[of 0 None "Some SIGTERM" child_running_state, THEN conjunct2]
       exit_observer_failure_path[of 0 "Some 1" None child_running_state, THEN conjunct2]
       exit_observer_failure_path[of 0 "Some 0" None child_running_state, THEN conjunct2] s
  show ?thesis by simp
qed

subsection \<open>Settling at the redirect\<close>










subsection \<open>How many runs are unsettled\<close>





subsection \<open>Terminal events of one run\<close>

text \<open>
  What holds of the \<open>settled\<close> flag: no event ever unsettles a run, and of two calls of
  \<open>failAuthFlow\<close> for one run the second does nothing.
\<close>

lemma settled_keptI:
  "length (runs s) \<le> length (runs s') \<Longrightarrow>
   (\<And>r. r < length (runs s) \<Longrightarrow> settled (runs s ! r) \<Longrightarrow> settled (runs s' ! r)) \<Longrightarrow>
   settled_kept s s'"
  by (auto simp: settled_kept_def list_all_iff)

lemma settled_keptD:
  "settled_kept s s' \<Longrightarrow> r < length (runs s) \<Longrightarrow> is_settled s r \<Longrightarrow>
   r < length (runs s') \<and> is_settled s' r"
  by (auto simp: settled_kept_def list_all_iff is_settled_def)

lemma settled_kept_same: "same_runs s' s \<Longrightarrow> settled_kept s s'"
  by (auto simp: same_runs_def settled_kept_def list_all_iff)

lemma settled_kept_trans: "settled_kept s s' \<Longrightarrow> settled_kept s' s'' \<Longrightarrow> settled_kept s s''"
  by (rule settled_keptI) (auto simp: settled_kept_def list_all_iff)

lemma settled_kept_settle: "settled_kept s (settleAuthRun r s)"
  by (cases r) (auto intro!: settled_keptI simp: settleAuthRun_def nth_list_update)

lemma settled_kept_begin: "settled_kept s (snd (beginAuthRun now s))"
  by (auto intro!: settled_keptI simp: beginAuthRun_def Let_def nth_append)

lemma same_runs_failAuthFlow:
  "same_runs (failAuthFlow m r s) s \<or> same_runs (failAuthFlow m r s) (settleAuthRun r s)"
  by (cases r)
     (auto simp: failAuthFlow_def Let_def same_runs_def uiSend_def deliver_def kill_auth_child_def
        close_auth_window_def do_effect_def split: option.splits)

lemma settled_kept_fail: "settled_kept s (failAuthFlow m r s)"
  using same_runs_failAuthFlow[of m r s] settled_kept_settle[of s r]
  by (auto intro: settled_kept_same settled_kept_trans)

lemma settled_kept_field [simp]:
  "settled_kept s (s'\<lparr>onedriveProcess := x\<rparr>) = settled_kept s s'"
  "settled_kept s (s'\<lparr>windows := ws\<rparr>) = settled_kept s s'"
  "settled_kept s (s'\<lparr>children := cs\<rparr>) = settled_kept s s'"
  "settled_kept s (s'\<lparr>authWindow := a\<rparr>) = settled_kept s s'"
  "settled_kept s (s'\<lparr>token_exists := b\<rparr>) = settled_kept s s'"
  "settled_kept s (s'\<lparr>isQuitting := b\<rparr>) = settled_kept s s'"
  "settled_kept s (s'\<lparr>win_ready := b\<rparr>) = settled_kept s s'"
  "settled_kept s (s'\<lparr>handlers := h\<rparr>) = settled_kept s s'"
  by (simp_all add: settled_kept_def)

lemma settled_kept_fun [simp]:
  "settled_kept s (deliver ch st m s') = settled_kept s s'"
  "settled_kept s (uiSend ch st m s') = settled_kept s s'"
  "settled_kept s (winSend ch st m s') = settled_kept s s'"
  "settled_kept s (senderSend ch st m s') = settled_kept s s'"
  "settled_kept s (do_effect e s') = settled_kept s s'"
  "settled_kept s (set_pc r pc s') = settled_kept s s'"
  "settled_kept s (startOnedriveMonitor s') = settled_kept s s'"
  "settled_kept s (decideAfterExit s') = settled_kept s s'"
  "settled_kept s ((decideAfterExit ^^ n) s') = settled_kept s s'"
  by (simp_all add: settled_kept_def
      same_runs_basic[unfolded same_runs_def] same_runs_startOnedriveMonitor[unfolded same_runs_def]
      same_runs_decideAfterExit[unfolded same_runs_def] same_runs_decide_pow[unfolded same_runs_def])

lemma settled_kept_refl [simp]: "settled_kept s s"
  by (simp add: settled_kept_same)

lemma settled_kept_step: "settled_kept s (step U e s)"
proof (cases e)
  case (StartAuthCommand now)
  with settled_kept_begin[of s now] show ?thesis
    by (cases "beginAuthRun now s") (simp add: start_onedrive_auth_def)
next
  case (InstallCheckDone r w)
  have "settled_kept s (settleAuthRun (Some r) (senderSend AuthResult Error MsgNotInstalled s))"
    by (rule settled_kept_trans[OF _ settled_kept_settle]) simp
  with InstallCheckDone show ?thesis by (simp add: after_install_check_def)
next
  case (HandlerThrows r)
  then show ?thesis by (simp add: handler_catch_def settled_kept_fail)
next
  case (ResponseWriteSettled w ok)
  have 1: "settled_kept s (failAuthFlow m r (s\<lparr>windows := ws\<rparr>))" for m r ws
    by (rule settled_kept_trans[OF _ settled_kept_fail]) simp
  have 2: "settled_kept s (settleAuthRun r (do_effect e (s\<lparr>windows := ws\<rparr>)))" for r e ws
    by (rule settled_kept_trans[OF _ settled_kept_settle]) simp
  from ResponseWriteSettled show ?thesis
    by (simp add: handleAuthRedirect_def Let_def 1 2 split: option.splits)
next
  case (AuthWindowClosed w)
  have 1: "settled_kept s (failAuthFlow m r (s\<lparr>windows := ws, authWindow := a\<rparr>))" for m r ws a
    by (rule settled_kept_trans[OF _ settled_kept_fail]) simp
  from AuthWindowClosed show ?thesis by (simp add: on_window_closed_def Let_def 1)
next
  case (ChildExit p code sig)
  have 1: "settled_kept s (failAuthFlow m r (s\<lparr>children := cs, onedriveProcess := x\<rparr>))" for m r cs x
    by (rule settled_kept_trans[OF _ settled_kept_fail]) simp
  from ChildExit show ?thesis by (simp add: on_child_exit_def exit_observer_def Let_def 1)
next
  case (ChildError p)
  then show ?thesis by (simp add: on_child_error_def settled_kept_fail)
next
  case UncaughtException
  then show ?thesis by (simp add: on_uncaughtException_def settled_kept_fail)
next
  case UnhandledRejection
  then show ?thesis by (simp add: on_unhandledRejection_def settled_kept_fail)
next
  case BeforeQuit
  then show ?thesis by (simp add: on_before_quit_def Let_def split: option.splits)
qed (simp_all add: on_ready_def maybeStartMonitorIfToken_def after_files_def openAuthWindow_def
       after_loadURL_def tryHandle_def on_child_close_def Let_def
       split: option.splits handler_pc.splits)

lemma settled_is_permanent:
  assumes "r < length (runs s)" "is_settled s r"
  shows "r < length (runs (run_events U evs s)) \<and> is_settled (run_events U evs s) r"
  using assms unfolding run_events_def
proof (induction evs arbitrary: s)
  case Nil
  then show ?case by simp
next
  case (Cons e evs)
  from settled_keptD[OF settled_kept_step[of s U e] Cons.prems]
  have "r < length (runs (step U e s))" "is_settled (step U e s) r" by simp_all
  from Cons.IH[OF this] show ?case by simp
qed

lemma second_failure_is_noop:
  "failAuthFlow m2 (Some r) (failAuthFlow m1 (Some r) s) = failAuthFlow m1 (Some r) s"
proof (cases "length (runs s) \<le> r \<or> is_settled s r")
  case True
  then show ?thesis by (auto simp: failAuthFlow_def)
next
  case False
  then have "r < length (runs s)" "\<not> is_settled s r" by auto
  from failAuthFlow_unsettled[OF this, of m1] show ?thesis
    by (simp add: failAuthFlow_def[of m2])
qed

text \<open>
  Claim C1. \<open>handleAuthRedirect\<close> puts \<open>decideAfterExit\<close> on both the \<open>exit\<close> and the
  \<open>close\<close> event of the child, and \<open>decideAfterExit\<close> looks at no flag (the stop of the
  monitor registers the same pair of listeners, behind its \<open>resolved\<close> flag). A child
  that ends emits both events. So the flow that goes well, with its one run, delivers
  the terminal event \<open>completed\<close> twice, and starts the monitor twice.
\<close>

theorem auth_flow_completed_twice:
  "length (runs (run_events URL_simple (flow_until_redirect @ flow_child_ends) initial_state)) = 1 \<and>
   terminal_events (run_events URL_simple (flow_until_redirect @ flow_child_ends) initial_state) =
     [\<lparr>channel = AuthResult, status = Completed, message = MsgAuthCompleted\<rparr>,
      \<lparr>channel = AuthResult, status = Completed, message = MsgAuthCompleted\<rparr>] \<and>
   spawned_commands (run_events URL_simple (flow_until_redirect @ flow_child_ends) initial_state) =
     [WhichOnedrive, OnedriveAuth, OnedriveMonitor, OnedriveMonitor]"
  by code_simp

end
